theory Spec2Isabelle
  imports Complex_Main "HOL-Library.Multiset" "HOL-Library.Product_Lexorder"
begin

section \<open>Data model (app/models/task.py, app/schemas/task.py)\<close>

text \<open>
  Python exceptions are values: a computation that can raise returns \<open>exn + 'a\<close>, with
  \<open>Inl\<close> the exception. The classes listed are the ones the modelled code can meet.
\<close>

datatype exn =
    HTTPError
  | AIServiceUnavailable
  | JSONDecodeError
  | KeyError
  | IndexError
  | TypeError
  | AttributeError
  | ValueError
  | IntegrityError
  | MultipleResultsFound

datatype TaskStatus = PENDING | IN_PROGRESS | COMPLETED | CANCELLED | ON_HOLD

datatype TaskPriority = LOW | MEDIUM | HIGH | URGENT

text \<open>
  Sequencing of statements that can raise, and \<open>try: ... except ...:\<close>.
\<close>

definition and_then :: "exn + 'a \<Rightarrow> ('a \<Rightarrow> exn + 'b) \<Rightarrow> exn + 'b" where
  "and_then m f = (case m of Inl e \<Rightarrow> Inl e | Inr v \<Rightarrow> f v)"

definition try_except :: "exn + 'a \<Rightarrow> (exn \<Rightarrow> bool) \<Rightarrow> (exn \<Rightarrow> exn + 'a) \<Rightarrow> exn + 'a" where
  "try_except body catches handler =
     (case body of Inr v \<Rightarrow> Inr v | Inl e \<Rightarrow> if catches e then handler e else Inl e)"

text \<open>
  Time. An instant is counted in microseconds on the UTC clock; a timedelta is a
  difference of instants, and \<open>timedelta_days\<close> is the \<open>days\<close> attribute of a
  normalised timedelta: the floor of the difference in days.

  A Python datetime (\<open>py_datetime\<close>) is naive or offset-aware. \<open>datetime.utcnow()\<close>
  is naive: \<open>Naive now\<close>. A datetime parsed from a request is naive, or aware when the
  text carries a UTC offset. Python refuses to compare or subtract a naive and an aware
  datetime: \<open>TypeError\<close>. The process is taken to run in UTC, so a naive value
  denotes the instant it shows.

  A datetime column (\<open>datetime\<close>) holds an instant. Every such column is declared
  \<open>DateTime(timezone=True)\<close>, and the configured database
  (\<open>postgresql+asyncpg\<close>, core/config.py) loads it as an offset-aware datetime: a
  loaded value \<open>d\<close> is \<open>Aware d\<close> in Python. SQL compares instants and does not
  raise.
\<close>

type_synonym datetime = int

datatype py_datetime = Naive int | Aware int

fun instant :: "py_datetime \<Rightarrow> int" where
  "instant (Naive i) = i"
| "instant (Aware i) = i"

fun py_less :: "py_datetime \<Rightarrow> py_datetime \<Rightarrow> exn + bool" where
  "py_less (Naive a) (Naive b) = Inr (a < b)"
| "py_less (Aware a) (Aware b) = Inr (a < b)"
| "py_less _ _ = Inl TypeError"

fun py_less_eq :: "py_datetime \<Rightarrow> py_datetime \<Rightarrow> exn + bool" where
  "py_less_eq (Naive a) (Naive b) = Inr (a \<le> b)"
| "py_less_eq (Aware a) (Aware b) = Inr (a \<le> b)"
| "py_less_eq _ _ = Inl TypeError"

fun py_minus :: "py_datetime \<Rightarrow> py_datetime \<Rightarrow> exn + int" where
  "py_minus (Naive a) (Naive b) = Inr (a - b)"
| "py_minus (Aware a) (Aware b) = Inr (a - b)"
| "py_minus _ _ = Inl TypeError"

fun py_plus :: "py_datetime \<Rightarrow> int \<Rightarrow> py_datetime" where
  "py_plus (Naive a) delta = Naive (a + delta)"
| "py_plus (Aware a) delta = Aware (a + delta)"

definition microseconds_per_day :: int where
  "microseconds_per_day = 86400000000"

definition timedelta :: "int \<Rightarrow> int" where
  "timedelta days = days * microseconds_per_day"

definition timedelta_days :: "int \<Rightarrow> int" where
  "timedelta_days delta = delta div microseconds_per_day"

text \<open>
  The columns of the \<open>tasks\<close> table that the service reads or writes. A nullable column is
  an option. The uuid, workspace, page, recurrence and ai_context columns are only copied
  by the service and are left out.
\<close>

record Task =
  t_id :: int
  title :: string
  description :: "string option"
  status :: "TaskStatus option"
  priority :: "TaskPriority option"
  due_date :: "datetime option"
  start_date :: "datetime option"
  estimated_duration :: "int option"
  actual_duration :: "int option"
  tags :: "string list option"
  category :: "string option"
  project :: "string option"
  ai_generated :: bool
  ai_priority_score :: "int option"
  ai_complexity_score :: "int option"
  ai_suggested_time_slot :: "datetime option"
  user_id :: int
  parent_task_id :: "int option"
  created_at :: datetime
  updated_at :: "datetime option"
  completed_at :: "datetime option"

text \<open>
  \<open>TaskCreate\<close> (app/schemas/task.py), with the fields that reach a modelled column.
  \<open>TaskCreate_defaults\<close> is the request that gives only a title: every other field takes
  the default the schema declares.
\<close>

record TaskCreate =
  tc_title :: string
  tc_description :: "string option"
  tc_priority :: TaskPriority
  tc_due_date :: "py_datetime option"
  tc_start_date :: "py_datetime option"
  tc_estimated_duration :: "int option"
  tc_tags :: "string list"
  tc_category :: "string option"
  tc_project :: "string option"
  tc_parent_task_id :: "int option"
  tc_ai_generated :: bool

definition TaskCreate_defaults :: "string \<Rightarrow> TaskCreate" where
  "TaskCreate_defaults t =
     \<lparr> tc_title = t, tc_description = None, tc_priority = MEDIUM, tc_due_date = None,
       tc_start_date = None, tc_estimated_duration = None, tc_tags = [],
       tc_category = None, tc_project = None, tc_parent_task_id = None,
       tc_ai_generated = False \<rparr>"

text \<open>
  \<open>TaskUpdate\<close>: every field is optional with default \<open>None\<close>, and the schema remembers
  which fields the request set (\<open>dict(exclude_unset=True)\<close>). A field is \<open>Unset\<close> or
  \<open>Given v\<close>, where \<open>v\<close> may be \<open>None\<close>. Reading the attribute of an unset field
  gives \<open>None\<close> (\<open>field_value\<close>). The schema declares no other field: a keyword such
  as \<open>completed_at\<close> or \<open>ai_suggested_time_slot\<close> passed to its constructor is not a
  field of the object, so \<open>TaskUpdate_unset\<close> is what such a call constructs.
\<close>

datatype 'a field = Unset | Given "'a option"

definition field_value :: "'a field \<Rightarrow> 'a option" where
  "field_value f = (case f of Unset \<Rightarrow> None | Given v \<Rightarrow> v)"

definition assign :: "'a field \<Rightarrow> 'a option \<Rightarrow> 'a option" where
  "assign f old = (case f of Unset \<Rightarrow> old | Given v \<Rightarrow> v)"

record TaskUpdate =
  tu_title :: "string field"
  tu_description :: "string field"
  tu_status :: "TaskStatus field"
  tu_priority :: "TaskPriority field"
  tu_due_date :: "py_datetime field"
  tu_start_date :: "py_datetime field"
  tu_estimated_duration :: "int field"
  tu_actual_duration :: "int field"
  tu_tags :: "string list field"
  tu_category :: "string field"
  tu_project :: "string field"

definition TaskUpdate_unset :: TaskUpdate where
  "TaskUpdate_unset =
     \<lparr> tu_title = Unset, tu_description = Unset, tu_status = Unset, tu_priority = Unset,
       tu_due_date = Unset, tu_start_date = Unset, tu_estimated_duration = Unset,
       tu_actual_duration = Unset, tu_tags = Unset, tu_category = Unset,
       tu_project = Unset \<rparr>"

text \<open>\<open>TaskResponse\<close>: the columns of the task and the four computed fields.\<close>

record TaskResponse =
  response_task :: Task
  is_overdue :: bool
  is_due_soon :: bool
  subtask_count :: nat
  completion_percentage :: rat

record TaskDependency =
  dep_id :: int
  task_id :: int
  depends_on_id :: int
  dependency_type :: string
  dep_created_at :: datetime

text \<open>
  The two tables the service works on, rows in storage order. Every operation of the
  service commits before it returns, so an operation maps a database to a database.
\<close>

record Database =
  tasks :: "Task list"
  task_dependencies :: "TaskDependency list"

text \<open>\<open>Result.scalar_one_or_none()\<close>: no row, the one row, or an exception.\<close>

definition scalar_one_or_none :: "'a list \<Rightarrow> exn + 'a option" where
  "scalar_one_or_none rows =
     (case rows of
        [] \<Rightarrow> Inr None
      | [r] \<Rightarrow> Inr (Some r)
      | _ \<Rightarrow> Inl MultipleResultsFound)"

section \<open>Derived scores (TaskService in app/services/task_service.py)\<close>

definition priority_scores :: "TaskPriority \<Rightarrow> int" where
  "priority_scores p = (case p of LOW \<Rightarrow> 25 | MEDIUM \<Rightarrow> 50 | HIGH \<Rightarrow> 75 | URGENT \<Rightarrow> 95)"

text \<open>
  \<open>_calculate_ai_priority_score\<close>. \<open>create_task\<close> calls it on the task object it has
  just constructed and not yet inserted, so \<open>task.priority\<close> and \<open>task.due_date\<close>, the
  two attributes it reads, are the request's values: the due date is a Python datetime,
  naive or offset-aware, and \<open>task.due_date - datetime.utcnow()\<close> raises on an aware
  one. \<open>priority_scores.get(task.priority, 50)\<close> gives 50 for a missing priority.
\<close>

definition calculate_ai_priority_score ::
  "int \<Rightarrow> TaskPriority option \<Rightarrow> py_datetime option \<Rightarrow> exn + int" where
  "calculate_ai_priority_score now task_priority task_due_date =
     (let score = (case task_priority of None \<Rightarrow> 50 | Some p \<Rightarrow> priority_scores p)
      in and_then
           (case task_due_date of
              None \<Rightarrow> Inr score
            | Some due \<Rightarrow>
                and_then (py_minus due (Naive now)) (\<lambda>delta.
                  (let days_until_due = timedelta_days delta
                   in if days_until_due \<le> 1 then Inr (score + 20)
                      else if days_until_due \<le> 3 then Inr (score + 10)
                      else if days_until_due \<le> 7 then Inr (score + 5)
                      else Inr score)))
           (\<lambda>score. Inr (min (max score 0) 100)))"

text \<open>
  \<open>_calculate_ai_complexity_score\<close>. \<open>if task.estimated_duration:\<close> and
  \<open>if task.description:\<close> are Python truth tests: a missing value, the number 0 and
  the empty string are false.
\<close>

definition calculate_ai_complexity_score :: "Task \<Rightarrow> int" where
  "calculate_ai_complexity_score task =
     (let score = 30;
          score = (case estimated_duration task of
                     None \<Rightarrow> score
                   | Some d \<Rightarrow>
                       if d = 0 then score
                       else if d > 240 then score + 40
                       else if d > 120 then score + 25
                       else if d > 60 then score + 15
                       else score);
          score = (case description task of
                     None \<Rightarrow> score
                   | Some s \<Rightarrow>
                       if s = [] then score
                       else if length s > 500 then score + 20
                       else if length s > 200 then score + 10
                       else score)
      in min (max score 0) 100)"

subsection \<open>The scores as the specification words them\<close>

text \<open>
  The specification's "due within n days" for the score: the due date is at most n days
  after now.
\<close>

definition spec_due_within :: "datetime \<Rightarrow> datetime \<Rightarrow> int \<Rightarrow> bool" where
  "spec_due_within now due n = (due \<le> now + timedelta n)"

definition spec_priority_bonus :: "datetime \<Rightarrow> datetime option \<Rightarrow> int" where
  "spec_priority_bonus now due =
     (case due of
        None \<Rightarrow> 0
      | Some d \<Rightarrow>
          if spec_due_within now d 1 then 20
          else if spec_due_within now d 3 then 10
          else if spec_due_within now d 7 then 5
          else 0)"

definition spec_priority_score :: "datetime \<Rightarrow> TaskPriority \<Rightarrow> datetime option \<Rightarrow> int" where
  "spec_priority_score now p due =
     min (max (priority_scores p + spec_priority_bonus now due) 0) 100"

definition spec_duration_bonus :: "int option \<Rightarrow> int" where
  "spec_duration_bonus dur =
     (case dur of
        None \<Rightarrow> 0
      | Some d \<Rightarrow> if d > 240 then 40 else if d > 120 then 25 else if d > 60 then 15 else 0)"

definition spec_description_bonus :: "string option \<Rightarrow> int" where
  "spec_description_bonus desc =
     (case desc of
        None \<Rightarrow> 0
      | Some s \<Rightarrow> if length s > 500 then 20 else if length s > 200 then 10 else 0)"

definition spec_complexity_score :: "int option \<Rightarrow> string option \<Rightarrow> int" where
  "spec_complexity_score dur desc =
     min (max (30 + spec_duration_bonus dur + spec_description_bonus desc) 0) 100"

text \<open>
  The bonus in terms of the due date itself: \<open>timedelta.days\<close> is a floor, so
  "\<open>days \<le> n\<close>" means that the due date is less than \<open>n + 1\<close> days after now.
\<close>

definition whole_days_bonus :: "datetime \<Rightarrow> datetime option \<Rightarrow> int" where
  "whole_days_bonus now due =
     (case due of
        None \<Rightarrow> 0
      | Some d \<Rightarrow>
          if d < now + timedelta 2 then 20
          else if d < now + timedelta 4 then 10
          else if d < now + timedelta 8 then 5
          else 0)"

section \<open>The task service (TaskService in app/services/task_service.py)\<close>

text \<open>
  Every function takes the database the session sees and \<open>now\<close>, the instant of
  \<open>datetime.utcnow()\<close> during the call; a function that writes returns the database
  it has committed, also when it raises after the commit.

  \<open>_task_to_response\<close> works on a loaded row. \<open>task.due_date < now\<close> compares the
  row's due date, offset-aware as loaded, with the naive \<open>now\<close>. The other comparisons
  are Python's too: a missing status is different from \<open>COMPLETED\<close>. The pydantic
  validation of the response object is not part of the model.
\<close>

definition overdue_test :: "int \<Rightarrow> Task \<Rightarrow> exn + bool" where
  "overdue_test now task =
     (case due_date task of
        None \<Rightarrow> Inr False
      | Some due \<Rightarrow>
          and_then (py_less (Aware due) (Naive now)) (\<lambda>before.
            Inr (before \<and> status task \<noteq> Some COMPLETED)))"

definition due_soon_test :: "int \<Rightarrow> Task \<Rightarrow> exn + bool" where
  "due_soon_test now task =
     (case due_date task of
        None \<Rightarrow> Inr False
      | Some due \<Rightarrow>
          and_then (py_less_eq (Aware due) (py_plus (Naive now) (timedelta 3))) (\<lambda>soon.
            Inr (soon \<and> status task \<noteq> Some COMPLETED)))"

definition task_to_response :: "Database \<Rightarrow> int \<Rightarrow> Task \<Rightarrow> exn + TaskResponse" where
  "task_to_response db now task =
     and_then (overdue_test now task) (\<lambda>overdue.
     and_then (due_soon_test now task) (\<lambda>due_soon.
       Inr \<lparr> response_task = task,
             is_overdue = overdue,
             is_due_soon = due_soon,
             subtask_count =
               length (filter (\<lambda>t. parent_task_id t = Some (t_id task)) (tasks db)),
             completion_percentage = (if status task = Some COMPLETED then 100 else 0) \<rparr>))"

text \<open>
  \<open>create_task\<close>. \<open>new_id\<close> is the primary key the database gives the inserted row. The
  columns the constructor does not set take their column defaults at the insert. The
  scores are computed before the insert, on the request's values; the response is built
  after the commit, on the row as \<open>refresh\<close> has loaded it.
\<close>

definition create_task ::
  "Database \<Rightarrow> int \<Rightarrow> int \<Rightarrow> TaskCreate \<Rightarrow> int \<Rightarrow> (exn + TaskResponse) \<times> Database" where
  "create_task db now new_id task_data uid =
     (let task =
            \<lparr> t_id = new_id,
              title = tc_title task_data,
              description = tc_description task_data,
              status = Some PENDING,
              priority = Some (tc_priority task_data),
              due_date = map_option instant (tc_due_date task_data),
              start_date = map_option instant (tc_start_date task_data),
              estimated_duration = tc_estimated_duration task_data,
              actual_duration = None,
              tags = Some (tc_tags task_data),
              category = tc_category task_data,
              project = tc_project task_data,
              ai_generated = tc_ai_generated task_data,
              ai_priority_score = None,
              ai_complexity_score = None,
              ai_suggested_time_slot = None,
              user_id = uid,
              parent_task_id = tc_parent_task_id task_data,
              created_at = now,
              updated_at = None,
              completed_at = None \<rparr>;
          scored =
            (if tc_ai_generated task_data
             then and_then
                    (calculate_ai_priority_score now (Some (tc_priority task_data))
                       (tc_due_date task_data))
                    (\<lambda>score.
                       Inr (task\<lparr> ai_priority_score := Some score,
                                  ai_complexity_score :=
                                    Some (calculate_ai_complexity_score task) \<rparr>))
             else Inr task)
      in case scored of
           Inl e \<Rightarrow> (Inl e, db)
         | Inr task \<Rightarrow>
             (let db' = db\<lparr> tasks := tasks db @ [task] \<rparr>
              in (task_to_response db' now task, db')))"

definition get_task :: "Database \<Rightarrow> int \<Rightarrow> int \<Rightarrow> int \<Rightarrow> exn + TaskResponse option" where
  "get_task db now tid uid =
     (case scalar_one_or_none (filter (\<lambda>t. t_id t = tid \<and> user_id t = uid) (tasks db)) of
        Inl e \<Rightarrow> Inl e
      | Inr None \<Rightarrow> Inr None
      | Inr (Some task) \<Rightarrow> and_then (task_to_response db now task) (\<lambda>r. Inr (Some r)))"

subsection \<open>Listing with filters\<close>

text \<open>
  The \<open>filters\<close> dictionary as the endpoint builds it. \<open>filters.get(k)\<close> is a Python
  truth test: a missing value, \<open>False\<close> and the empty string add no condition.
  \<open>no_filters\<close> is the dictionary of a request without query parameters.
\<close>

record TaskFilters =
  f_status :: "TaskStatus option"
  f_priority :: "TaskPriority option"
  f_category :: "string option"
  f_project :: "string option"
  f_due_soon :: bool
  f_overdue :: bool
  f_search :: "string option"

definition no_filters :: TaskFilters where
  "no_filters =
     \<lparr> f_status = None, f_priority = None, f_category = None, f_project = None,
       f_due_soon = False, f_overdue = False, f_search = None \<rparr>"

text \<open>
  The conditions are SQL: a comparison with a NULL column is not true, so
  \<open>Task.status != COMPLETED\<close> selects the rows that have a status other than
  \<open>COMPLETED\<close>.
\<close>

definition sql_status_ne_completed :: "Task \<Rightarrow> bool" where
  "sql_status_ne_completed t = (case status t of None \<Rightarrow> False | Some s \<Rightarrow> s \<noteq> COMPLETED)"

definition due_soon_condition :: "datetime \<Rightarrow> Task \<Rightarrow> bool" where
  "due_soon_condition now t =
     (let week_from_now = now + timedelta 7
      in case due_date t of
           None \<Rightarrow> False
         | Some due \<Rightarrow> due \<le> week_from_now \<and> sql_status_ne_completed t)"

definition overdue_condition :: "datetime \<Rightarrow> Task \<Rightarrow> bool" where
  "overdue_condition now t =
     (case due_date t of
        None \<Rightarrow> False
      | Some due \<Rightarrow> due < now \<and> sql_status_ne_completed t)"

text \<open>
  \<open>ilike\<close> is the database's case-insensitive pattern match, \<open>ilike text pattern\<close>.
\<close>

definition search_condition :: "(string \<Rightarrow> string \<Rightarrow> bool) \<Rightarrow> string \<Rightarrow> Task \<Rightarrow> bool" where
  "search_condition ilike s t =
     (let search_term = ''%'' @ s @ ''%''
      in ilike (title t) search_term
         \<or> (case description t of None \<Rightarrow> False | Some d \<Rightarrow> ilike d search_term))"

definition conditions ::
  "(string \<Rightarrow> string \<Rightarrow> bool) \<Rightarrow> datetime \<Rightarrow> TaskFilters \<Rightarrow> (Task \<Rightarrow> bool) list" where
  "conditions ilike now filters =
     (case f_status filters of None \<Rightarrow> [] | Some s \<Rightarrow> [\<lambda>t. status t = Some s])
     @ (case f_priority filters of None \<Rightarrow> [] | Some p \<Rightarrow> [\<lambda>t. priority t = Some p])
     @ (case f_category filters of
          None \<Rightarrow> []
        | Some c \<Rightarrow> if c = [] then [] else [\<lambda>t. category t = Some c])
     @ (case f_project filters of
          None \<Rightarrow> []
        | Some p \<Rightarrow> if p = [] then [] else [\<lambda>t. project t = Some p])
     @ (if f_due_soon filters then [due_soon_condition now] else [])
     @ (if f_overdue filters then [overdue_condition now] else [])
     @ (case f_search filters of
          None \<Rightarrow> []
        | Some s \<Rightarrow> if s = [] then [] else [search_condition ilike s])"

text \<open>
  The ordering: urgent first, then high, then ascending due date, then descending
  creation time, NULLs placed as PostgreSQL (the configured database) places them:
  first under \<open>desc\<close>, last under \<open>asc\<close>. Rows with equal keys keep their storage order.
\<close>

definition order_key :: "Task \<Rightarrow> nat \<times> nat \<times> (nat \<times> int) \<times> int" where
  "order_key t =
     ((case priority t of None \<Rightarrow> 0 | Some p \<Rightarrow> if p = URGENT then 1 else 2),
      (case priority t of None \<Rightarrow> 0 | Some p \<Rightarrow> if p = HIGH then 1 else 2),
      (case due_date t of None \<Rightarrow> (1, 0) | Some d \<Rightarrow> (0, d)),
      - created_at t)"

definition matching_tasks ::
  "Database \<Rightarrow> (string \<Rightarrow> string \<Rightarrow> bool) \<Rightarrow> datetime \<Rightarrow> int \<Rightarrow> TaskFilters option \<Rightarrow> Task list" where
  "matching_tasks db ilike now uid filters =
     (let conds = (case filters of None \<Rightarrow> [] | Some f \<Rightarrow> conditions ilike now f)
      in filter (\<lambda>t. user_id t = uid \<and> list_all (\<lambda>c. c t) conds) (tasks db))"

text \<open>The loop that converts the rows of the page, one after the other.\<close>

fun task_responses :: "Database \<Rightarrow> int \<Rightarrow> Task list \<Rightarrow> exn + TaskResponse list" where
  "task_responses db now [] = Inr []"
| "task_responses db now (task # rest) =
     and_then (task_to_response db now task) (\<lambda>task_response.
     and_then (task_responses db now rest) (\<lambda>responses.
       Inr (task_response # responses)))"

definition get_user_tasks ::
  "Database \<Rightarrow> (string \<Rightarrow> string \<Rightarrow> bool) \<Rightarrow> int \<Rightarrow> int \<Rightarrow> nat \<Rightarrow> nat \<Rightarrow> TaskFilters option
     \<Rightarrow> exn + TaskResponse list \<times> nat" where
  "get_user_tasks db ilike now uid skip limit filters =
     (let rows = matching_tasks db ilike now uid filters;
          page = take limit (drop skip (sort_key order_key rows));
          total = length rows
      in and_then (task_responses db now page) (\<lambda>responses. Inr (responses, total)))"

text \<open>
  The two listings as the specification words them. Overdue: the due date is set and
  strictly before now and the status is not completed. Due soon: the due date is within 7
  days of now, at most 7 days away from it, and the status is not completed.
\<close>

definition spec_overdue :: "int \<Rightarrow> Task \<Rightarrow> bool" where
  "spec_overdue now t =
     ((case due_date t of None \<Rightarrow> False | Some due \<Rightarrow> due < now)
      \<and> status t \<noteq> Some COMPLETED)"

definition spec_due_soon :: "int \<Rightarrow> Task \<Rightarrow> bool" where
  "spec_due_soon now t =
     ((case due_date t of None \<Rightarrow> False | Some due \<Rightarrow> \<bar>due - now\<bar> \<le> timedelta 7)
      \<and> status t \<noteq> Some COMPLETED)"

text \<open>
  What the two queries select: the status is set and is not completed, and the due date
  is set and strictly before now, respectively at most 7 days after now, however long
  ago.
\<close>

definition selected_overdue :: "int \<Rightarrow> Task \<Rightarrow> bool" where
  "selected_overdue now t =
     (due_date t \<noteq> None \<and> the (due_date t) < now
      \<and> status t \<noteq> None \<and> status t \<noteq> Some COMPLETED)"

definition selected_due_soon :: "int \<Rightarrow> Task \<Rightarrow> bool" where
  "selected_due_soon now t =
     (due_date t \<noteq> None \<and> the (due_date t) \<le> now + timedelta 7
      \<and> status t \<noteq> None \<and> status t \<noteq> Some COMPLETED)"

text \<open>The filter dictionaries that ask for the two listings.\<close>

definition overdue_filter :: "TaskFilters option" where
  "overdue_filter = Some (no_filters\<lparr> f_overdue := True \<rparr>)"

definition due_soon_filter :: "TaskFilters option" where
  "due_soon_filter = Some (no_filters\<lparr> f_due_soon := True \<rparr>)"

subsection \<open>Update, delete, complete\<close>

text \<open>
  The \<open>setattr\<close> loop over the fields the request set. The title column is not
  nullable: a request that sets the title to \<open>None\<close> fails at the commit. A datetime of
  the request is stored as its instant. The response is built after the commit.
\<close>

definition stored :: "py_datetime field \<Rightarrow> datetime field" where
  "stored f = (case f of Unset \<Rightarrow> Unset | Given v \<Rightarrow> Given (map_option instant v))"

definition set_fields :: "TaskUpdate \<Rightarrow> Task \<Rightarrow> Task" where
  "set_fields task_update task =
     task\<lparr> title := (case tu_title task_update of Given (Some s) \<Rightarrow> s | _ \<Rightarrow> title task),
           description := assign (tu_description task_update) (description task),
           status := assign (tu_status task_update) (status task),
           priority := assign (tu_priority task_update) (priority task),
           due_date := assign (stored (tu_due_date task_update)) (due_date task),
           start_date := assign (stored (tu_start_date task_update)) (start_date task),
           estimated_duration := assign (tu_estimated_duration task_update) (estimated_duration task),
           actual_duration := assign (tu_actual_duration task_update) (actual_duration task),
           tags := assign (tu_tags task_update) (tags task),
           category := assign (tu_category task_update) (category task),
           project := assign (tu_project task_update) (project task) \<rparr>"

definition update_completion_timestamp :: "datetime \<Rightarrow> TaskUpdate \<Rightarrow> Task \<Rightarrow> Task" where
  "update_completion_timestamp now task_update task =
     (if field_value (tu_status task_update) = Some COMPLETED \<and> completed_at task = None
      then task\<lparr> completed_at := Some now \<rparr>
      else if field_value (tu_status task_update) \<noteq> Some COMPLETED
      then task\<lparr> completed_at := None \<rparr>
      else task)"

definition update_task ::
  "Database \<Rightarrow> datetime \<Rightarrow> int \<Rightarrow> TaskUpdate \<Rightarrow> int
     \<Rightarrow> (exn + TaskResponse option) \<times> Database" where
  "update_task db now tid task_update uid =
     (case scalar_one_or_none (filter (\<lambda>t. t_id t = tid \<and> user_id t = uid) (tasks db)) of
        Inl e \<Rightarrow> (Inl e, db)
      | Inr None \<Rightarrow> (Inr None, db)
      | Inr (Some task) \<Rightarrow>
          (let task = set_fields task_update task;
               task = update_completion_timestamp now task_update task;
               task = task\<lparr> updated_at := Some now \<rparr>
           in if tu_title task_update = Given None then (Inl IntegrityError, db)
              else
                (let db' = db\<lparr> tasks :=
                              map (\<lambda>t. if t_id t = tid \<and> user_id t = uid then task else t)
                                (tasks db) \<rparr>
                 in (and_then (task_to_response db' now task) (\<lambda>r. Inr (Some r)), db'))))"

text \<open>
  \<open>delete_task\<close> removes the row; what the database does to rows of other tables that
  reference it is not modelled.
\<close>

definition delete_task :: "Database \<Rightarrow> int \<Rightarrow> int \<Rightarrow> (exn + bool) \<times> Database" where
  "delete_task db tid uid =
     (case scalar_one_or_none (filter (\<lambda>t. t_id t = tid \<and> user_id t = uid) (tasks db)) of
        Inl e \<Rightarrow> (Inl e, db)
      | Inr None \<Rightarrow> (Inr False, db)
      | Inr (Some task) \<Rightarrow>
          (Inr True,
           db\<lparr> tasks := filter (\<lambda>t. \<not> (t_id t = tid \<and> user_id t = uid)) (tasks db) \<rparr>))"

definition complete_task ::
  "Database \<Rightarrow> datetime \<Rightarrow> int \<Rightarrow> int \<Rightarrow> (exn + TaskResponse option) \<times> Database" where
  "complete_task db now tid uid =
     update_task db now tid (TaskUpdate_unset\<lparr> tu_status := Given (Some COMPLETED) \<rparr>) uid"

subsection \<open>Dependencies\<close>

definition would_create_circular_dependency :: "Database \<Rightarrow> int \<Rightarrow> int \<Rightarrow> exn + bool" where
  "would_create_circular_dependency db tid did =
     (case scalar_one_or_none
             (filter (\<lambda>d. task_id d = did \<and> depends_on_id d = tid) (task_dependencies db)) of
        Inl e \<Rightarrow> Inl e
      | Inr r \<Rightarrow> Inr (r \<noteq> None))"

text \<open>\<open>add_task_dependency\<close>; \<open>new_id\<close> is the primary key of the inserted edge.\<close>

definition add_task_dependency ::
  "Database \<Rightarrow> datetime \<Rightarrow> int \<Rightarrow> int \<Rightarrow> int \<Rightarrow> int
     \<Rightarrow> (exn + TaskDependency option) \<times> Database" where
  "add_task_dependency db now new_id tid did uid =
     (let found = filter (\<lambda>t. (t_id t = tid \<or> t_id t = did) \<and> user_id t = uid) (tasks db)
      in if length found \<noteq> 2 then (Inr None, db)
         else
           (case would_create_circular_dependency db tid did of
              Inl e \<Rightarrow> (Inl e, db)
            | Inr True \<Rightarrow> (Inr None, db)
            | Inr False \<Rightarrow>
                (let dependency =
                       \<lparr> dep_id = new_id, task_id = tid, depends_on_id = did,
                         dependency_type = ''finish_to_start'', dep_created_at = now \<rparr>
                 in (Inr (Some dependency),
                     db\<lparr> task_dependencies := task_dependencies db @ [dependency] \<rparr>))))"

text \<open>The dependency edges of a database, as pairs (task, depends on).\<close>

definition edges :: "Database \<Rightarrow> (int \<times> int) list" where
  "edges db = map (\<lambda>d. (task_id d, depends_on_id d)) (task_dependencies db)"

subsection \<open>Analytics\<close>

text \<open>
  \<open>get_productivity_analytics\<close>. The counts are Python integers. The rate is a Python
  float: \<open>completed_tasks / total_tasks * 100\<close> is computed in floating point, whose
  operations are parameters (\<open>float_ops\<close>): the true division of two integers, the
  product of a float and an integer, and the comparison \<open>n < x\<close> of an integer with a
  float that \<open>min(completion_rate, 100)\<close> makes. With no task the rate is the integer 0.

  The overdue count is a list comprehension over the loaded rows; its test
  \<open>t.due_date and t.due_date < datetime.utcnow() and ...\<close> is the comparison of
  \<open>_task_to_response\<close>, and it runs before the rate is computed.
\<close>

record 'f float_ops =
  true_division :: "int \<Rightarrow> int \<Rightarrow> 'f"
  times_int :: "'f \<Rightarrow> int \<Rightarrow> 'f"
  int_less_float :: "int \<Rightarrow> 'f \<Rightarrow> bool"

datatype 'f py_number = PyInt int | PyFloat 'f

record 'f ProductivityAnalytics =
  total_tasks :: int
  completed_tasks :: int
  pending_tasks :: int
  overdue_tasks :: int
  completion_rate :: "'f py_number"
  productivity_score :: "'f py_number"
  period_days :: int

fun overdue_rows :: "int \<Rightarrow> Task list \<Rightarrow> exn + Task list" where
  "overdue_rows now [] = Inr []"
| "overdue_rows now (t # rest) =
     and_then (overdue_test now t) (\<lambda>overdue.
     and_then (overdue_rows now rest) (\<lambda>others.
       Inr (if overdue then t # others else others)))"

definition get_productivity_analytics ::
  "'f float_ops \<Rightarrow> Database \<Rightarrow> int \<Rightarrow> int \<Rightarrow> int \<Rightarrow> exn + 'f ProductivityAnalytics" where
  "get_productivity_analytics ops db now uid days =
     (let start_date = now - timedelta days;
          rows = filter (\<lambda>t. user_id t = uid \<and> created_at t \<ge> start_date) (tasks db);
          total = int (length rows);
          completed = int (length (filter (\<lambda>t. status t = Some COMPLETED) rows))
      in and_then (overdue_rows now rows) (\<lambda>overdue.
           (let rate = (if total > 0
                        then PyFloat (times_int ops (true_division ops completed total) 100)
                        else PyInt 0)
            in Inr \<lparr> total_tasks = total,
                       completed_tasks = completed,
                       pending_tasks = total - completed,
                       overdue_tasks = int (length overdue),
                       completion_rate = rate,
                       productivity_score =
                         (case rate of
                            PyInt n \<Rightarrow> PyInt (min n 100)
                          | PyFloat x \<Rightarrow> if int_less_float ops 100 x then PyInt 100 else PyFloat x),
                       period_days = days \<rparr>)))"

section \<open>JSON values and the Python operations on them\<close>

text \<open>
  What \<open>json.loads\<close> and \<open>response.json()\<close> return. A number is a rational (Python's
  \<open>int\<close> and \<open>float\<close> compare by value); an object is the list of its items.
\<close>

datatype json =
    JNull
  | JBool bool
  | JNum rat
  | JStr string
  | JArr "json list"
  | JObj "(string \<times> json) list"

text \<open>The truth test of \<open>if x:\<close> and of \<open>and\<close>.\<close>

fun truthy :: "json \<Rightarrow> bool" where
  "truthy JNull = False"
| "truthy (JBool b) = b"
| "truthy (JNum r) = (r \<noteq> 0)"
| "truthy (JStr s) = (s \<noteq> [])"
| "truthy (JArr xs) = (xs \<noteq> [])"
| "truthy (JObj kvs) = (kvs \<noteq> [])"

text \<open>\<open>x.get(key, default)\<close>: only a dictionary has the method.\<close>

fun dict_get :: "json \<Rightarrow> string \<Rightarrow> json \<Rightarrow> exn + json" where
  "dict_get (JObj kvs) key dflt =
     Inr (case map_of kvs key of None \<Rightarrow> dflt | Some v \<Rightarrow> v)"
| "dict_get _ key dflt = Inl AttributeError"

text \<open>\<open>x[key]\<close> with a string key, and \<open>x[0]\<close>.\<close>

fun subscript :: "json \<Rightarrow> string \<Rightarrow> exn + json" where
  "subscript (JObj kvs) key = (case map_of kvs key of None \<Rightarrow> Inl KeyError | Some v \<Rightarrow> Inr v)"
| "subscript _ key = Inl TypeError"

fun subscript_0 :: "json \<Rightarrow> exn + json" where
  "subscript_0 (JArr []) = Inl IndexError"
| "subscript_0 (JArr (x # xs)) = Inr x"
| "subscript_0 (JStr []) = Inl IndexError"
| "subscript_0 (JStr (c # cs)) = Inr (JStr [c])"
| "subscript_0 (JObj kvs) = Inl KeyError"
| "subscript_0 _ = Inl TypeError"

text \<open>\<open>for item in x\<close>: the elements of a list, the keys of a dictionary, the characters
  of a string; nothing else is iterable.\<close>

fun iterate :: "json \<Rightarrow> exn + json list" where
  "iterate (JArr xs) = Inr xs"
| "iterate (JObj kvs) = Inr (map (\<lambda>kv. JStr (fst kv)) kvs)"
| "iterate (JStr s) = Inr (map (\<lambda>c. JStr [c]) s)"
| "iterate _ = Inl TypeError"

text \<open>\<open>n == x\<close> for an integer \<open>n\<close>: \<open>True\<close> equals 1 and \<open>False\<close> equals 0.\<close>

fun eq_int :: "json \<Rightarrow> int \<Rightarrow> bool" where
  "eq_int (JNum r) n = (r = of_int n)"
| "eq_int (JBool b) n = (n = (if b then 1 else 0))"
| "eq_int _ n = False"

section \<open>The AI services (app/services/ai)\<close>

text \<open>
  The network and the two library parsers are parameters: \<open>http\<close> is the outcome of the
  request (\<open>client.post\<close>, \<open>raise_for_status\<close>, \<open>response.json()\<close>), \<open>loads\<close> is
  \<open>json.loads\<close> on a string (\<open>None\<close> when it raises \<open>JSONDecodeError\<close>).

  \<open>_make_request\<close> turns an \<open>httpx.HTTPError\<close> into the generic exception
  "AI service unavailable"; any other exception passes.
\<close>

definition make_request :: "exn + json \<Rightarrow> exn + json" where
  "make_request http =
     try_except http (\<lambda>e. e = HTTPError) (\<lambda>e. Inl AIServiceUnavailable)"

text \<open>\<open>response["choices"][0]["message"]["content"]\<close>.\<close>

definition message_content :: "json \<Rightarrow> exn + json" where
  "message_content response =
     and_then (subscript response ''choices'') (\<lambda>choices.
     and_then (subscript_0 choices) (\<lambda>choice.
     and_then (subscript choice ''message'') (\<lambda>message.
     subscript message ''content'')))"

definition json_loads :: "(string \<Rightarrow> json option) \<Rightarrow> json \<Rightarrow> exn + json" where
  "json_loads loads content =
     (case content of
        JStr s \<Rightarrow> (case loads s of None \<Rightarrow> Inl JSONDecodeError | Some v \<Rightarrow> Inr v)
      | _ \<Rightarrow> Inl TypeError)"

definition completion_json :: "exn + json \<Rightarrow> (string \<Rightarrow> json option) \<Rightarrow> exn + json" where
  "completion_json http loads =
     and_then (make_request http) (\<lambda>response.
     and_then (message_content response) (\<lambda>content.
     json_loads loads content))"

subsection \<open>GrokService (grok_service.py)\<close>

text \<open>
  \<open>GrokService.parse_natural_language_task\<close>, the function the endpoints call. Its
  handler is \<open>except (json.JSONDecodeError, KeyError)\<close>.
\<close>

definition GrokService_parse_natural_language_task ::
  "exn + json \<Rightarrow> (string \<Rightarrow> json option) \<Rightarrow> string \<Rightarrow> exn + json" where
  "GrokService_parse_natural_language_task http loads task_input =
     try_except (completion_json http loads)
       (\<lambda>e. e = JSONDecodeError \<or> e = KeyError)
       (\<lambda>e. Inr (JObj
          [(''title'', JStr (take 100 task_input)),
           (''description'', if length task_input > 100 then JStr task_input else JNull),
           (''priority'', JStr ''medium'')]))"

text \<open>
  \<open>GrokService.generate_schedule_optimization\<close>. The prompt is built before the
  \<open>try\<close>: \<open>serializable\<close> says whether \<open>json.dumps\<close> accepts the context data (it
  raises \<open>TypeError\<close> on a value that is not JSON, such as a datetime).
\<close>

definition generate_schedule_optimization ::
  "bool \<Rightarrow> exn + json \<Rightarrow> (string \<Rightarrow> json option) \<Rightarrow> exn + json" where
  "generate_schedule_optimization serializable http loads =
     (if \<not> serializable then Inl TypeError
      else try_except (completion_json http loads)
             (\<lambda>e. True)
             (\<lambda>e. Inr (JObj [(''error'', JStr ''Optimization failed''),
                              (''fallback'', JBool True)])))"

subsection \<open>EnhancedGrokService (enhanced_grok_service.py)\<close>

record TaskParsing =
  p_title :: json
  p_description :: json
  p_priority :: json
  p_due_date :: "datetime option"
  p_estimated_duration :: json
  p_tags :: json
  p_dependencies :: json
  p_subtasks :: json
  p_ai_confidence :: json
  p_reasoning :: json

text \<open>
  \<open>_parse_datetime\<close>; \<open>fromisoformat\<close> and \<open>strptime\<close> are the library parsers, \<open>None\<close>
  when they raise. Every exception inside is swallowed by a bare \<open>except\<close>.
\<close>

definition replace_Z :: "string \<Rightarrow> string" where
  "replace_Z s = concat (map (\<lambda>c. if c = CHR ''Z'' then ''+00:00'' else [c]) s)"

fun first_format :: "(string \<Rightarrow> string \<Rightarrow> datetime option) \<Rightarrow> string \<Rightarrow> string list \<Rightarrow> datetime option" where
  "first_format strptime s [] = None"
| "first_format strptime s (fmt # fmts) =
     (case strptime s fmt of Some d \<Rightarrow> Some d | None \<Rightarrow> first_format strptime s fmts)"

definition parse_datetime ::
  "(string \<Rightarrow> datetime option) \<Rightarrow> (string \<Rightarrow> string \<Rightarrow> datetime option) \<Rightarrow> json \<Rightarrow> datetime option" where
  "parse_datetime fromisoformat strptime date_str =
     (if \<not> truthy date_str then None
      else case date_str of
             JStr s \<Rightarrow>
               (case fromisoformat (replace_Z s) of
                  Some d \<Rightarrow> Some d
                | None \<Rightarrow>
                    first_format strptime s
                      [''%Y-%m-%d'', ''%Y-%m-%d %H:%M'', ''%m/%d/%Y'', ''%d/%m/%Y''])
           | _ \<Rightarrow> None)"

definition fallback_parsing :: "string \<Rightarrow> TaskParsing" where
  "fallback_parsing task_input =
     \<lparr> p_title = JStr (take 100 task_input),
       p_description = (if length task_input > 100 then JStr task_input else JNull),
       p_priority = JStr ''medium'',
       p_due_date = None,
       p_estimated_duration = JNull,
       p_tags = JNull,
       p_dependencies = JNull,
       p_subtasks = JNull,
       p_ai_confidence = JNum (3 / 10),
       p_reasoning = JStr ''Fallback parsing due to AI service error'' \<rparr>"

definition EnhancedGrokService_parse_natural_language_task ::
  "exn + json \<Rightarrow> (string \<Rightarrow> json option) \<Rightarrow> (string \<Rightarrow> datetime option)
     \<Rightarrow> (string \<Rightarrow> string \<Rightarrow> datetime option) \<Rightarrow> string \<Rightarrow> exn + TaskParsing" where
  "EnhancedGrokService_parse_natural_language_task http loads fromisoformat strptime task_input =
     try_except
       (and_then (completion_json http loads) (\<lambda>parsed_data.
        and_then (dict_get parsed_data ''title'' (JStr (take 100 task_input))) (\<lambda>title.
        and_then (dict_get parsed_data ''description'' JNull) (\<lambda>description.
        and_then (dict_get parsed_data ''priority'' (JStr ''medium'')) (\<lambda>priority.
        and_then (dict_get parsed_data ''due_date'' JNull) (\<lambda>due.
        and_then (dict_get parsed_data ''estimated_duration'' JNull) (\<lambda>duration.
        and_then (dict_get parsed_data ''tags'' (JArr [])) (\<lambda>tags.
        and_then (dict_get parsed_data ''dependencies'' (JArr [])) (\<lambda>dependencies.
        and_then (dict_get parsed_data ''subtasks'' (JArr [])) (\<lambda>subtasks.
        and_then (dict_get parsed_data ''confidence'' (JNum (8 / 10))) (\<lambda>confidence.
        and_then (dict_get parsed_data ''reasoning''
                    (JStr ''AI parsed task from natural language'')) (\<lambda>reasoning.
        Inr \<lparr> p_title = title,
              p_description = description,
              p_priority = priority,
              p_due_date = parse_datetime fromisoformat strptime due,
              p_estimated_duration = duration,
              p_tags = tags,
              p_dependencies = dependencies,
              p_subtasks = subtasks,
              p_ai_confidence = confidence,
              p_reasoning = reasoning \<rparr>))))))))))))
       (\<lambda>e. True)
       (\<lambda>e. Inr (fallback_parsing task_input))"

section \<open>AI-assisted scheduling of one task (TaskService.optimize_task_scheduling)\<close>

text \<open>
  The whole body is inside \<open>try: ... except Exception\<close>. The update it makes is
  \<open>TaskUpdate(ai_suggested_time_slot=...)\<close>; the schema has no such field, so the object
  is \<open>TaskUpdate_unset\<close>. The prompt data are \<open>[task.dict()]\<close>, a dictionary that holds
  datetime values, which \<open>json.dumps\<close> rejects: in this call \<open>serializable\<close> is
  false. It is left a parameter, and what is proved below holds for both values.
\<close>

definition optimize_task_scheduling ::
  "Database \<Rightarrow> datetime \<Rightarrow> (string \<Rightarrow> string \<Rightarrow> bool) \<Rightarrow> bool \<Rightarrow> exn + json
     \<Rightarrow> (string \<Rightarrow> json option) \<Rightarrow> int \<Rightarrow> int \<Rightarrow> (exn + unit) \<times> Database" where
  "optimize_task_scheduling db now ilike serializable http loads tid uid =
     (let body =
            (case get_task db now tid uid of
               Inl e \<Rightarrow> (Inl e, db)
             | Inr None \<Rightarrow> (Inr (), db)
             | Inr (Some task) \<Rightarrow>
                 (case get_user_tasks db ilike now uid 0 50 None of
                    Inl e \<Rightarrow> (Inl e, db)
                  | Inr user_tasks \<Rightarrow>
                      (case generate_schedule_optimization serializable http loads of
                         Inl e \<Rightarrow> (Inl e, db)
                       | Inr optimization_data \<Rightarrow>
                           (case dict_get optimization_data ''suggested_time_slot'' JNull of
                              Inl e \<Rightarrow> (Inl e, db)
                            | Inr slot \<Rightarrow>
                                if truthy slot
                                then (case update_task db now tid TaskUpdate_unset uid of
                                        (Inl e, db') \<Rightarrow> (Inl e, db')
                                      | (Inr r, db') \<Rightarrow> (Inr (), db'))
                                else (Inr (), db)))))
      in (try_except (fst body) (\<lambda>e. True) (\<lambda>e. Inr ()), snd body))"

text \<open>
  Whether the AI layer's answer holds a suggested time slot: it returned a dictionary
  whose \<open>suggested_time_slot\<close> is true in Python's sense.
\<close>

definition has_suggested_time_slot :: "exn + json \<Rightarrow> bool" where
  "has_suggested_time_slot answer =
     (case answer of
        Inr (JObj kvs) \<Rightarrow>
          (case map_of kvs ''suggested_time_slot'' of None \<Rightarrow> False | Some v \<Rightarrow> truthy v)
      | _ \<Rightarrow> False)"

section \<open>The background job (optimize_user_schedules in app/tasks/ai_tasks.py)\<close>

text \<open>The columns of \<open>users\<close> that the job's query names.\<close>

record User =
  u_id :: int
  is_active :: bool
  ai_preferences :: json

text \<open>
  The users query is built from \<open>User.is_active == True\<close> and
  \<open>User.ai_preferences["auto_scheduling"].astext.cast(bool) == True\<close>. An element of a
  JSON column has the attribute \<open>astext\<close> only when the column is declared with the
  PostgreSQL JSON type; \<open>ai_preferences\<close> is declared with sqlalchemy's generic
  \<open>JSON\<close> (models/user.py), so evaluating \<open>.astext\<close> raises \<open>AttributeError\<close> while
  the query is being built, before anything is sent to the database.
\<close>

datatype json_type = Generic_JSON | Postgresql_JSON

definition ai_preferences_type :: json_type where
  "ai_preferences_type = Generic_JSON"

fun astext_cast_bool :: "json_type \<Rightarrow> string \<Rightarrow> exn + (json \<Rightarrow> bool)" where
  "astext_cast_bool Postgresql_JSON key =
     Inr (\<lambda>preferences. dict_get preferences key JNull = Inr (JBool True))"
| "astext_cast_bool Generic_JSON key = Inl AttributeError"

definition users_query :: "User list \<Rightarrow> exn + User list" where
  "users_query users_table =
     and_then (astext_cast_bool ai_preferences_type ''auto_scheduling'') (\<lambda>auto_scheduling.
       Inr (filter (\<lambda>u. is_active u \<and> auto_scheduling (ai_preferences u)) users_table))"

text \<open>
  The job works in one session. \<open>pending\<close> is the tasks table as the session's objects
  show it, with the assignments not yet committed; \<open>committed\<close> is the table in the
  database. \<open>db.commit()\<close> writes every pending assignment of the session.
\<close>

record Session =
  pending :: "Task list"
  committed :: "Task list"

definition commit :: "Session \<Rightarrow> Session" where
  "commit s = s\<lparr> committed := pending s \<rparr>"

text \<open>The query for a user's pending tasks: at most 20 rows.\<close>

definition user_pending_tasks :: "User \<Rightarrow> Task list \<Rightarrow> Task list" where
  "user_pending_tasks user rows =
     take 20 (filter (\<lambda>t. user_id t = u_id user
                          \<and> (status t = Some PENDING \<or> status t = Some IN_PROGRESS)
                          \<and> due_date t \<noteq> None) rows)"

text \<open>\<open>task.ai_suggested_time_slot = ...\<close> on the session's object of the row.\<close>

definition set_time_slot :: "int \<Rightarrow> datetime \<Rightarrow> Task list \<Rightarrow> Task list" where
  "set_time_slot i d rows =
     map (\<lambda>t. if t_id t = i then t\<lparr> ai_suggested_time_slot := Some d \<rparr> else t) rows"

text \<open>
  One turn of the loop over the suggestions, up to the value to assign: the task the
  suggestion names among the user's tasks and the parsed time, nothing when a key is
  missing or false or no task has the id, or the exception raised on the way.
  \<open>fromisoformat\<close> is \<open>datetime.fromisoformat\<close> on a string, \<open>None\<close> when it raises
  \<open>ValueError\<close>.
\<close>

definition suggested_assignment ::
  "(string \<Rightarrow> datetime option) \<Rightarrow> Task list \<Rightarrow> json \<Rightarrow> exn + (Task \<times> datetime) option" where
  "suggested_assignment fromisoformat user_tasks suggestion =
     and_then (dict_get suggestion ''task_id'' JNull) (\<lambda>tid.
     and_then (dict_get suggestion ''suggested_time'' JNull) (\<lambda>suggested_time.
       if truthy tid \<and> truthy suggested_time
       then (case find (\<lambda>t. eq_int tid (t_id t)) user_tasks of
               None \<Rightarrow> Inr None
             | Some task \<Rightarrow>
                 (case suggested_time of
                    JStr s \<Rightarrow>
                      (case fromisoformat s of
                         None \<Rightarrow> Inl ValueError
                       | Some d \<Rightarrow> Inr (Some (task, d)))
                  | _ \<Rightarrow> Inl TypeError))
       else Inr None))"

fun apply_suggestions ::
  "(string \<Rightarrow> datetime option) \<Rightarrow> Task list \<Rightarrow> json list \<Rightarrow> Task list
     \<Rightarrow> (exn + unit) \<times> Task list" where
  "apply_suggestions fromisoformat user_tasks [] rows = (Inr (), rows)"
| "apply_suggestions fromisoformat user_tasks (suggestion # rest) rows =
     (case suggested_assignment fromisoformat user_tasks suggestion of
        Inl e \<Rightarrow> (Inl e, rows)
      | Inr None \<Rightarrow> apply_suggestions fromisoformat user_tasks rest rows
      | Inr (Some (task, d)) \<Rightarrow>
          apply_suggestions fromisoformat user_tasks rest (set_time_slot (t_id task) d rows))"

text \<open>
  The body of the loop over the users, inside its \<open>try\<close>: \<open>Inr False\<close> is the
  \<open>continue\<close> of a user without tasks, \<open>Inr True\<close> a user that was committed and
  counted, \<open>Inl e\<close> an exception, which leaves the assignments made so far pending.
  \<open>ai uid\<close> is the outcome of the HTTP request made for user \<open>uid\<close>. The prompt data of
  the job are strings and numbers, which \<open>json.dumps\<close> accepts.
\<close>

definition optimize_user ::
  "(int \<Rightarrow> exn + json) \<Rightarrow> (string \<Rightarrow> json option) \<Rightarrow> (string \<Rightarrow> datetime option)
     \<Rightarrow> User \<Rightarrow> Session \<Rightarrow> (exn + bool) \<times> Session" where
  "optimize_user ai loads fromisoformat user s =
     (let user_tasks = user_pending_tasks user (pending s)
      in if user_tasks = [] then (Inr False, s)
         else if list_ex (\<lambda>t. priority t = None) user_tasks then (Inl AttributeError, s)
         else
           (case and_then (generate_schedule_optimization True (ai (u_id user)) loads)
                   (\<lambda>optimization.
                    and_then (dict_get optimization ''optimized_schedule'' (JArr [])) iterate) of
              Inl e \<Rightarrow> (Inl e, s)
            | Inr suggestions \<Rightarrow>
                (case apply_suggestions fromisoformat user_tasks suggestions (pending s) of
                   (Inl e, rows) \<Rightarrow> (Inl e, s\<lparr> pending := rows \<rparr>)
                 | (Inr u, rows) \<Rightarrow> (Inr True, commit (s\<lparr> pending := rows \<rparr>)))))"

text \<open>
  The loop over the users: \<open>except Exception\<close> logs and continues; \<open>n\<close> is
  \<open>optimized_count\<close>.
\<close>

fun optimize_users ::
  "(int \<Rightarrow> exn + json) \<Rightarrow> (string \<Rightarrow> json option) \<Rightarrow> (string \<Rightarrow> datetime option)
     \<Rightarrow> User list \<Rightarrow> Session \<Rightarrow> nat \<Rightarrow> Session \<times> nat" where
  "optimize_users ai loads fromisoformat [] s n = (s, n)"
| "optimize_users ai loads fromisoformat (user # users) s n =
     (case optimize_user ai loads fromisoformat user s of
        (Inl e, s') \<Rightarrow> optimize_users ai loads fromisoformat users s' n
      | (Inr counted, s') \<Rightarrow>
          optimize_users ai loads fromisoformat users s' (if counted then n + 1 else n))"

text \<open>
  The job: the users query, the loop, the counts it logs. Closing the session drops what
  is still pending. Everything is inside the outer \<open>try\<close>, whose handler logs and
  raises again, so an exception of the users query leaves the job.
\<close>

record JobReport =
  total_users :: nat
  optimized_count :: nat

definition optimize_user_schedules ::
  "(int \<Rightarrow> exn + json) \<Rightarrow> (string \<Rightarrow> json option) \<Rightarrow> (string \<Rightarrow> datetime option)
     \<Rightarrow> User list \<Rightarrow> Database \<Rightarrow> (exn + JobReport) \<times> Database" where
  "optimize_user_schedules ai loads fromisoformat users_table db =
     (case users_query users_table of
        Inl e \<Rightarrow> (Inl e, db)
      | Inr users \<Rightarrow>
          (case optimize_users ai loads fromisoformat users
                  \<lparr> pending = tasks db, committed = tasks db \<rparr> 0 of
             (s, n) \<Rightarrow>
               (Inr \<lparr> total_users = length users, optimized_count = n \<rparr>,
                db\<lparr> tasks := committed s \<rparr>)))"

text \<open>The rows of one owner.\<close>

definition rows_of :: "int \<Rightarrow> Task list \<Rightarrow> Task list" where
  "rows_of uid rows = filter (\<lambda>t. user_id t = uid) rows"

section \<open>Example inputs\<close>

text \<open>
  Concrete requests and databases on which the theorems below are evaluated. The report
  task has low priority and is due 36 hours after the instant 0.
\<close>

definition empty_database :: Database where
  "empty_database = \<lparr> tasks = [], task_dependencies = [] \<rparr>"

definition example_report_request :: TaskCreate where
  "example_report_request =
     (TaskCreate_defaults ''finish report'')
       \<lparr> tc_priority := LOW, tc_due_date := Some (Naive 129600000000), tc_ai_generated := True \<rparr>"

text \<open>
  A database of four tasks created at the instant 0: tasks 1, 2 and 3 belong to user 1 and
  are due 5 microseconds, 3 days and 30 days later; task 4 belongs to user 2.
\<close>

definition example_database :: Database where
  "example_database =
     (let db = empty_database;
          db = snd (create_task db 0 1 ((TaskCreate_defaults ''pay rent'')\<lparr> tc_due_date := Some (Naive 5) \<rparr>) 1);
          db = snd (create_task db 0 2
                 ((TaskCreate_defaults ''plan trip'')\<lparr> tc_due_date := Some (Naive (timedelta 3)) \<rparr>) 1);
          db = snd (create_task db 0 3
                 ((TaskCreate_defaults ''file taxes'')\<lparr> tc_due_date := Some (Naive (timedelta 30)) \<rparr>) 1);
          db = snd (create_task db 0 4 ((TaskCreate_defaults ''water plants'')\<lparr> tc_due_date := Some (Naive 7) \<rparr>) 2)
      in db)"

text \<open>User 1 completes task 1 at the instant 20 and renames it at the instant 30.\<close>

definition rent_paid_database :: Database where
  "rent_paid_database = snd (complete_task example_database 20 1 1)"

definition rent_renamed_database :: Database where
  "rent_renamed_database =
     snd (update_task rent_paid_database 30 1
            (TaskUpdate_unset\<lparr> tu_title := Given (Some ''pay the rent'') \<rparr>) 1)"

text \<open>
  Two tasks of user 1, due at the instants 5 and 7; the status of task 2 is then set to
  null by an update. \<open>long_after\<close> is the instant 400 days after the first due date.
\<close>

definition stale_database :: Database where
  "stale_database =
     (let db = empty_database;
          db = snd (create_task db 0 1
                 ((TaskCreate_defaults ''renew passport'')\<lparr> tc_due_date := Some (Naive 5) \<rparr>) 1);
          db = snd (create_task db 0 2
                 ((TaskCreate_defaults ''call plumber'')\<lparr> tc_due_date := Some (Naive 7) \<rparr>) 1);
          db = snd (update_task db 10 2 (TaskUpdate_unset\<lparr> tu_status := Given None \<rparr>) 1)
      in db)"

definition long_after :: int where
  "long_after = 5 + timedelta 400"


text \<open>User 1 makes task 1 depend on task 2, and task 2 on task 3.\<close>

definition chain_database :: Database where
  "chain_database =
     (let db = snd (add_task_dependency example_database 40 1 1 2 1);
          db = snd (add_task_dependency db 41 2 2 3 1)
      in db)"

text \<open>
  A well-formed completion whose message is prose, not JSON.
\<close>

definition chatty_response :: json where
  "chatty_response =
     JObj [(''choices'',
            JArr [JObj [(''message'', JObj [(''content'', JStr ''Sure! Here is your task.'')])]])]"

text \<open>
  A run of the job: the four users have auto scheduling in their preferences, user 4 is
  inactive, user 3 has the task 5; the requests for users 1 and 3 are answered with a
  schedule for one of their tasks and the request for user 2 fails (or, in the second
  variant, is answered with a JSON list).
\<close>

definition job_database :: Database where
  "job_database =
     snd (create_task example_database 0 5
            ((TaskCreate_defaults ''book venue'')\<lparr> tc_due_date := Some (Naive (timedelta 2)) \<rparr>) 3)"

definition auto_scheduling_on :: json where
  "auto_scheduling_on = JObj [(''auto_scheduling'', JBool True)]"

definition example_users :: "User list" where
  "example_users =
     [\<lparr> u_id = 1, is_active = True, ai_preferences = auto_scheduling_on \<rparr>,
      \<lparr> u_id = 2, is_active = True, ai_preferences = auto_scheduling_on \<rparr>,
      \<lparr> u_id = 3, is_active = True, ai_preferences = auto_scheduling_on \<rparr>,
      \<lparr> u_id = 4, is_active = False, ai_preferences = auto_scheduling_on \<rparr>]"

definition completion :: "string \<Rightarrow> json" where
  "completion content =
     JObj [(''choices'', JArr [JObj [(''message'', JObj [(''content'', JStr content)])]])]"

definition example_ai :: "int \<Rightarrow> exn + json" where
  "example_ai uid =
     (if uid = 1 then Inr (completion ''schedule for 1'')
      else if uid = 3 then Inr (completion ''schedule for 3'')
      else Inl HTTPError)"

definition schedule_for :: "int \<Rightarrow> json" where
  "schedule_for tid =
     JObj [(''optimized_schedule'',
            JArr [JObj [(''task_id'', JNum (of_int tid)),
                        (''suggested_time'', JStr ''2024-05-01T09:00:00'')]])]"

definition example_loads :: "string \<Rightarrow> json option" where
  "example_loads s =
     (if s = ''schedule for 1'' then Some (schedule_for 2)
      else if s = ''schedule for 3'' then Some (schedule_for 5)
      else if s = ''[]'' then Some (JArr [])
      else None)"

definition example_fromisoformat :: "string \<Rightarrow> datetime option" where
  "example_fromisoformat s =
     (if s = ''2024-05-01T09:00:00'' then Some 1714554000000000 else None)"

definition example_ai_malformed :: "int \<Rightarrow> exn + json" where
  "example_ai_malformed uid = (if uid = 2 then Inr (completion ''[]'') else example_ai uid)"

section \<open>Theorems\<close>

lemmas example_defs =
  example_database_def empty_database_def create_task_def TaskCreate_defaults_def
  task_to_response_def overdue_test_def due_soon_test_def and_then_def
  timedelta_def microseconds_per_day_def Let_def

lemmas dep_defs = add_task_dependency_def would_create_circular_dependency_def
  scalar_one_or_none_def edges_def

subsection \<open>Priority score\<close>

lemma timedelta_days_le_iff: "timedelta_days x \<le> k \<longleftrightarrow> x < timedelta (k + 1)"
proof -
  define q where "q = x div 86400000000"
  define r where "r = x mod 86400000000"
  have x: "x = 86400000000 * q + r"
    unfolding q_def r_def by simp
  have r: "0 \<le> r" "r < 86400000000"
    unfolding r_def by simp_all
  have "q \<le> k \<Longrightarrow> x < (k + 1) * 86400000000"
    using x r by (simp add: algebra_simps)
  moreover have "x < (k + 1) * 86400000000 \<Longrightarrow> q \<le> k"
    using x r by (simp add: algebra_simps)
  ultimately have "q \<le> k \<longleftrightarrow> x < (k + 1) * 86400000000"
    by blast
  then show ?thesis
    by (simp add: timedelta_days_def timedelta_def microseconds_per_day_def q_def)
qed

lemma bonus_eq:
  "(let days_until_due = timedelta_days (due - now)
    in if days_until_due \<le> 1 then Inr (score + 20)
       else if days_until_due \<le> 3 then Inr (score + 10)
       else if days_until_due \<le> 7 then Inr (score + 5)
       else Inr score) = (Inr (score + whole_days_bonus now (Some due)) :: exn + int)"
proof -
  have "timedelta_days (due - now) \<le> k \<longleftrightarrow> due < now + timedelta (k + 1)" for k
    by (simp add: timedelta_days_le_iff) linarith
  from this [of 1] this [of 3] this [of 7] show ?thesis
    by (simp add: whole_days_bonus_def Let_def)
qed

text \<open>
  The subtraction \<open>task.due_date - datetime.utcnow()\<close> of an offset-aware due date and
  the naive now raises, whatever the priority.
\<close>

lemma priority_score_aware_due_date_raises:
  "calculate_ai_priority_score now task_priority (Some (Aware due)) = Inl TypeError"
  by (simp add: calculate_ai_priority_score_def and_then_def Let_def)

text \<open>
  C4, as amended. For a task whose due date is absent or offset-naive, the priority
  score is the base of the priority tier (low 25, medium 50, high 75, urgent 95; 50 when
  the task has no priority) plus a bonus counted in whole days until the due date: 20
  when the due date is less than 2 days after now (overdue included), else 10 when less
  than 4 days, else 5 when less than 8 days, nothing without a due date; the sum is
  clamped to 0..100. For a fixed now it is a function of priority and due date, it is
  returned, and it lies in 0..100.
\<close>

theorem C4_priority_score_whole_days:
  "calculate_ai_priority_score now task_priority (map_option Naive due)
     = Inr (min (max ((case task_priority of None \<Rightarrow> 50 | Some p \<Rightarrow> priority_scores p)
                      + whole_days_bonus now due) 0) 100)
   \<and> (\<exists>score. calculate_ai_priority_score now task_priority (map_option Naive due) = Inr score
         \<and> 0 \<le> score \<and> score \<le> 100)"
proof (cases due)
  case None
  then show ?thesis
    by (simp add: calculate_ai_priority_score_def whole_days_bonus_def and_then_def Let_def)
next
  case (Some d)
  have "calculate_ai_priority_score now task_priority (Some (Naive d))
          = Inr (min (max ((case task_priority of None \<Rightarrow> 50 | Some p \<Rightarrow> priority_scores p)
                           + whole_days_bonus now (Some d)) 0) 100)"
    unfolding calculate_ai_priority_score_def
    by (simp add: bonus_eq [unfolded Let_def] and_then_def Let_def)
  with Some show ?thesis
    by simp
qed

text \<open>
  C4 as stated fails: a low-priority task due 36 hours from now is not due within 1 day,
  so the stated rule gives 25 + 10 = 35, and the service stores 45.
\<close>

theorem C4_within_one_day_counterexample:
  "map (\<lambda>t. (priority t, due_date t, ai_priority_score t))
     (tasks (snd (create_task empty_database 0 1 example_report_request 1)))
     = [(Some LOW, Some (timedelta 1 + timedelta 1 div 2), Some 45)]
   \<and> spec_priority_score 0 LOW (Some (timedelta 1 + timedelta 1 div 2)) = 35"
  by (simp add: create_task_def example_report_request_def
      TaskCreate_defaults_def empty_database_def calculate_ai_priority_score_def
      spec_priority_score_def spec_priority_bonus_def spec_due_within_def and_then_def
      priority_scores_def timedelta_days_def timedelta_def microseconds_per_day_def Let_def)

subsection \<open>Complexity score\<close>

text \<open>
  C5. The complexity score of a task is base 30, plus 40, 25 or 15 when the estimated
  duration exceeds 240, 120 or 60 minutes, plus 20 or 10 when the description is longer
  than 500 or 200 characters, clamped to the range 0..100; it always lies in that range.
\<close>

theorem C5_complexity_score:
  "calculate_ai_complexity_score task =
     spec_complexity_score (estimated_duration task) (description task)
   \<and> 0 \<le> calculate_ai_complexity_score task
   \<and> calculate_ai_complexity_score task \<le> 100"
  by (simp add: calculate_ai_complexity_score_def spec_complexity_score_def
      spec_duration_bonus_def spec_description_bonus_def Let_def split: option.splits)

subsection \<open>Analytics\<close>

lemma overdue_rows_raises:
  "t \<in> set rows \<Longrightarrow> due_date t \<noteq> None \<Longrightarrow> overdue_rows now rows = Inl TypeError"
proof (induction rows)
  case Nil
  then show ?case by simp
next
  case (Cons r rows)
  show ?case
  proof (cases "due_date r")
    case None
    with Cons show ?thesis
      by (auto simp: overdue_test_def and_then_def)
  next
    case (Some due)
    then show ?thesis
      by (simp add: overdue_test_def and_then_def)
  qed
qed

lemma overdue_rows_returns:
  "\<forall>t \<in> set rows. due_date t = None \<Longrightarrow> overdue_rows now rows = Inr []"
  by (induction rows) (simp_all add: overdue_test_def and_then_def)

text \<open>
  The analytics raise as soon as one task of the window has a due date, whatever its
  status.
\<close>

lemma analytics_raise:
  assumes "t \<in> set (tasks db)" and "user_id t = uid"
    and "created_at t \<ge> now - timedelta days" and "due_date t \<noteq> None"
  shows "get_productivity_analytics ops db now uid days = Inl TypeError"
proof -
  from assms have
    "t \<in> set (filter (\<lambda>t. user_id t = uid \<and> created_at t \<ge> now - timedelta days) (tasks db))"
    by simp
  from overdue_rows_raises [OF this assms(4)] show ?thesis
    by (simp add: get_productivity_analytics_def Let_def and_then_def)
qed

text \<open>
  When no task of the window has a due date the analytics are returned: pending_tasks is
  total_tasks minus completed_tasks, which is the number of tasks of the window whose
  status is not completed (cancelled and on_hold tasks are among them); the rate is the
  integer 0 when the window has no task, and otherwise the float that
  \<open>completed_tasks / total_tasks * 100\<close> evaluates to.
\<close>

lemma analytics_without_due_dates:
  assumes "\<forall>t \<in> set (tasks db).
             user_id t = uid \<and> created_at t \<ge> now - timedelta days \<longrightarrow> due_date t = None"
  shows "\<exists>a. get_productivity_analytics ops db now uid days = Inr a
           \<and> total_tasks a
               = int (length (filter (\<lambda>t. user_id t = uid \<and> created_at t \<ge> now - timedelta days)
                                (tasks db)))
           \<and> completed_tasks a
               = int (length (filter (\<lambda>t. (user_id t = uid \<and> created_at t \<ge> now - timedelta days)
                                          \<and> status t = Some COMPLETED) (tasks db)))
           \<and> pending_tasks a = total_tasks a - completed_tasks a
           \<and> pending_tasks a
               = int (length (filter (\<lambda>t. (user_id t = uid \<and> created_at t \<ge> now - timedelta days)
                                          \<and> status t \<noteq> Some COMPLETED) (tasks db)))
           \<and> overdue_tasks a = 0
           \<and> completion_rate a
               = (if total_tasks a = 0 then PyInt 0
                  else PyFloat (times_int ops
                          (true_division ops (completed_tasks a) (total_tasks a)) 100))"
proof -
  let ?rows = "filter (\<lambda>t. user_id t = uid \<and> created_at t \<ge> now - timedelta days) (tasks db)"
  from assms have "\<forall>t \<in> set ?rows. due_date t = None"
    by simp
  then have o: "overdue_rows now ?rows = Inr []"
    by (rule overdue_rows_returns)
  have "length (filter (\<lambda>t. status t = Some COMPLETED) xs)
        + length (filter (\<lambda>t. status t \<noteq> Some COMPLETED) xs) = length xs" for xs :: "Task list"
    by (rule sum_length_filter_compl)
  from this [of ?rows] have
    p: "int (length ?rows) - int (length (filter (\<lambda>t. status t = Some COMPLETED) ?rows))
          = int (length (filter (\<lambda>t. status t \<noteq> Some COMPLETED) ?rows))"
    by linarith
  show ?thesis
    using p by (simp add: get_productivity_analytics_def Let_def and_then_def o)
qed

text \<open>
  C10 on the code: 50 microseconds after the tasks of the example were created, the
  30-day window of user 1 holds the tasks 1, 2 and 3, none of them completed, so the
  analytics should report 3 pending tasks of 3 and the rate 0; the overdue count
  compares the due date of task 1, offset-aware as loaded, with the naive now, and the
  call raises TypeError.
\<close>

theorem C10_analytics_raise_on_due_date:
  "map (\<lambda>t. (t_id t, status t, due_date t))
     (filter (\<lambda>t. user_id t = 1 \<and> created_at t \<ge> 50 - timedelta 30) (tasks example_database))
     = [(1, Some PENDING, Some 5), (2, Some PENDING, Some (timedelta 3)),
        (3, Some PENDING, Some (timedelta 30))]
   \<and> get_productivity_analytics ops example_database 50 1 30 = Inl TypeError"
  by (simp add: get_productivity_analytics_def example_defs)

subsection \<open>Listing\<close>

lemma overdue_condition_selected:
  "overdue_condition now t = selected_overdue now t"
  by (auto simp: overdue_condition_def selected_overdue_def sql_status_ne_completed_def
      split: option.splits)

lemma due_soon_condition_selected:
  "due_soon_condition now t = selected_due_soon now t"
  by (auto simp: due_soon_condition_def selected_due_soon_def sql_status_ne_completed_def
      Let_def split: option.splits)

lemma matching_overdue:
  "matching_tasks db ilike now uid overdue_filter
     = filter (\<lambda>t. user_id t = uid \<and> selected_overdue now t) (tasks db)"
proof -
  have "conditions ilike now (no_filters\<lparr> f_overdue := True \<rparr>) = [overdue_condition now]"
    by (simp add: conditions_def no_filters_def)
  then show ?thesis
    by (simp add: matching_tasks_def overdue_filter_def overdue_condition_selected)
qed

lemma matching_due_soon:
  "matching_tasks db ilike now uid due_soon_filter
     = filter (\<lambda>t. user_id t = uid \<and> selected_due_soon now t) (tasks db)"
proof -
  have "conditions ilike now (no_filters\<lparr> f_due_soon := True \<rparr>) = [due_soon_condition now]"
    by (simp add: conditions_def no_filters_def)
  then show ?thesis
    by (simp add: matching_tasks_def due_soon_filter_def due_soon_condition_selected)
qed

text \<open>
  The conversion of a row that has a due date raises, so a page of rows with due dates
  is returned only when it is empty.
\<close>

lemma task_to_response_due_date_raises:
  "due_date task \<noteq> None \<Longrightarrow> task_to_response db now task = Inl TypeError"
  by (auto simp: task_to_response_def overdue_test_def and_then_def)

lemma task_responses_due_dates:
  "\<forall>t \<in> set page. due_date t \<noteq> None \<Longrightarrow>
     task_responses db now page = (if page = [] then Inr [] else Inl TypeError)"
  by (cases page) (simp_all add: task_to_response_due_date_raises and_then_def)

lemma listing_of_rows_with_due_dates:
  assumes "matching_tasks db ilike now uid filters = filter P (tasks db)"
    and "\<forall>t. P t \<longrightarrow> due_date t \<noteq> None"
  shows "get_user_tasks db ilike now uid skip limit filters
           = (if take limit (drop skip (sort_key order_key (filter P (tasks db)))) = []
              then Inr ([], length (filter P (tasks db)))
              else Inl TypeError)"
proof -
  let ?page = "take limit (drop skip (sort_key order_key (filter P (tasks db))))"
  have "set ?page \<subseteq> set (sort_key order_key (filter P (tasks db)))"
    by (meson set_take_subset set_drop_subset subset_trans)
  with assms(2) have "\<forall>t \<in> set ?page. due_date t \<noteq> None"
    by auto
  from task_responses_due_dates [OF this] show ?thesis
    by (simp add: get_user_tasks_def assms(1) Let_def and_then_def)
qed

text \<open>
  Both listings, on every database: \<open>total\<close> counts the owner's tasks that the query
  selects, and the call returns only when the page is empty.
\<close>

lemma overdue_listing:
  "get_user_tasks db ilike now uid skip limit overdue_filter
     = (if take limit (drop skip (sort_key order_key
             (filter (\<lambda>t. user_id t = uid \<and> selected_overdue now t) (tasks db)))) = []
        then Inr ([], length (filter (\<lambda>t. user_id t = uid \<and> selected_overdue now t) (tasks db)))
        else Inl TypeError)"
  by (rule listing_of_rows_with_due_dates [OF matching_overdue])
     (simp add: selected_overdue_def)

lemma due_soon_listing:
  "get_user_tasks db ilike now uid skip limit due_soon_filter
     = (if take limit (drop skip (sort_key order_key
             (filter (\<lambda>t. user_id t = uid \<and> selected_due_soon now t) (tasks db)))) = []
        then Inr ([], length (filter (\<lambda>t. user_id t = uid \<and> selected_due_soon now t) (tasks db)))
        else Inl TypeError)"
  by (rule listing_of_rows_with_due_dates [OF matching_due_soon])
     (simp add: selected_due_soon_def)

lemmas stale_defs =
  stale_database_def long_after_def update_task_def scalar_one_or_none_def set_fields_def
  stored_def update_completion_timestamp_def field_value_def assign_def TaskUpdate_unset_def

text \<open>
  C6 on the code. In the example database at the instant 10, task 1 of user 1 is the one
  overdue task and tasks 1 and 2 are the ones due within 7 days; both listings raise
  TypeError, in the conversion of the first row to a response. In the other database,
  400 days after task 1 was due, tasks 1 and 2 of user 1 are overdue and not completed
  and none is due within 7 days of now; a page past the end is returned, and its total
  is 1 under the overdue filter (task 2, whose status is null, is not counted) and 1
  under the due_soon filter (task 1, due 400 days ago, is counted).
\<close>

theorem C6_listing_raises_and_selects_otherwise:
  "map t_id (filter (\<lambda>t. user_id t = 1 \<and> spec_overdue 10 t) (tasks example_database)) = [1]
   \<and> get_user_tasks example_database ilike 10 1 0 100 overdue_filter = Inl TypeError
   \<and> map t_id (filter (\<lambda>t. user_id t = 1 \<and> spec_due_soon 10 t) (tasks example_database)) = [1, 2]
   \<and> get_user_tasks example_database ilike 10 1 0 100 due_soon_filter = Inl TypeError
   \<and> map (\<lambda>t. (t_id t, user_id t, status t, due_date t)) (tasks stale_database)
       = [(1, 1, Some PENDING, Some 5), (2, 1, None, Some 7)]
   \<and> map t_id (filter (\<lambda>t. user_id t = 1 \<and> spec_overdue long_after t) (tasks stale_database))
       = [1, 2]
   \<and> get_user_tasks stale_database ilike long_after 1 2 100 overdue_filter = Inr ([], 1)
   \<and> map t_id (filter (\<lambda>t. user_id t = 1 \<and> spec_due_soon long_after t) (tasks stale_database))
       = []
   \<and> get_user_tasks stale_database ilike long_after 1 2 100 due_soon_filter = Inr ([], 1)"
proof -
  have c: "conditions ilike now (no_filters\<lparr> f_overdue := True \<rparr>) = [overdue_condition now]"
          "conditions ilike now (no_filters\<lparr> f_due_soon := True \<rparr>) = [due_soon_condition now]"
    for now
    by (simp_all add: conditions_def no_filters_def)
  have e1: "map t_id (filter (\<lambda>t. user_id t = 1 \<and> spec_overdue 10 t) (tasks example_database))
              = [1]"
    by (simp add: example_defs spec_overdue_def)
  have e2: "get_user_tasks example_database ilike 10 1 0 100 overdue_filter = Inl TypeError"
    by (simp add: get_user_tasks_def matching_tasks_def overdue_filter_def c
        overdue_condition_def sql_status_ne_completed_def example_defs)
  have e3: "map t_id (filter (\<lambda>t. user_id t = 1 \<and> spec_due_soon 10 t) (tasks example_database))
              = [1, 2]"
    by (simp add: example_defs spec_due_soon_def)
  have e4: "get_user_tasks example_database ilike 10 1 0 100 due_soon_filter = Inl TypeError"
    by (simp add: get_user_tasks_def matching_tasks_def due_soon_filter_def c
        due_soon_condition_def sql_status_ne_completed_def example_defs)
  have s0: "map (\<lambda>t. (t_id t, user_id t, status t, due_date t)) (tasks stale_database)
              = [(1, 1, Some PENDING, Some 5), (2, 1, None, Some 7)]"
    by (simp add: stale_defs example_defs)
  have s1: "map t_id (filter (\<lambda>t. user_id t = 1 \<and> spec_overdue long_after t)
                         (tasks stale_database)) = [1, 2]"
    by (simp add: stale_defs example_defs spec_overdue_def)
  have s2: "get_user_tasks stale_database ilike long_after 1 2 100 overdue_filter = Inr ([], 1)"
    by (simp add: get_user_tasks_def matching_tasks_def overdue_filter_def c
        overdue_condition_def sql_status_ne_completed_def stale_defs example_defs)
  have s3: "map t_id (filter (\<lambda>t. user_id t = 1 \<and> spec_due_soon long_after t)
                         (tasks stale_database)) = []"
    by (simp add: stale_defs example_defs spec_due_soon_def)
  have s4: "get_user_tasks stale_database ilike long_after 1 2 100 due_soon_filter = Inr ([], 1)"
    by (simp add: get_user_tasks_def matching_tasks_def due_soon_filter_def c
        due_soon_condition_def sql_status_ne_completed_def stale_defs example_defs)
  from e1 e2 e3 e4 s0 s1 s2 s3 s4 show ?thesis
    by blast
qed

subsection \<open>Owner scoping\<close>

lemma no_row_of_user:
  assumes "\<forall>t \<in> set rows. t_id t = tid \<longrightarrow> user_id t \<noteq> uid"
  shows "filter (\<lambda>t. t_id t = tid \<and> user_id t = uid) rows = []"
  using assms by (induction rows) auto

text \<open>
  C7. When a task id belongs to another owner, get_task, update_task and delete_task
  answer the requester exactly as they answer for an id that does not exist (None, None
  and False), and they leave the database as it was.
\<close>

theorem C7_cross_owner_not_found:
  assumes owned: "t \<in> set (tasks db)" "t_id t = tid" "user_id t = owner"
    and other: "requester \<noteq> owner"
    and pk: "distinct (map t_id (tasks db))"
    and absent: "missing \<notin> t_id ` set (tasks db)"
  shows "get_task db now tid requester = Inr None
       \<and> get_task db now missing requester = Inr None
       \<and> update_task db now tid task_update requester = (Inr None, db)
       \<and> update_task db now missing task_update requester = (Inr None, db)
       \<and> delete_task db tid requester = (Inr False, db)
       \<and> delete_task db missing requester = (Inr False, db)"
proof -
  have only: "\<forall>u \<in> set (tasks db). t_id u = tid \<longrightarrow> user_id u \<noteq> requester"
  proof (intro ballI impI)
    fix u assume u: "u \<in> set (tasks db)" "t_id u = tid"
    with owned pk have "u = t"
      by (metis distinct_map inj_onD)
    with owned other show "user_id u \<noteq> requester" by simp
  qed
  have none: "\<forall>u \<in> set (tasks db). t_id u = missing \<longrightarrow> user_id u \<noteq> requester"
    using absent by auto
  show ?thesis
    by (simp add: get_task_def update_task_def delete_task_def scalar_one_or_none_def
        no_row_of_user [OF only] no_row_of_user [OF none])
qed

theorem C7_witness:
  "get_task example_database 10 1 2 = Inr None
   \<and> get_task example_database 10 99 2 = Inr None
   \<and> update_task example_database 10 1 (TaskUpdate_unset\<lparr> tu_title := Given (Some ''mine now'') \<rparr>) 2
       = (Inr None, example_database)
   \<and> update_task example_database 10 99 (TaskUpdate_unset\<lparr> tu_title := Given (Some ''mine now'') \<rparr>) 2
       = (Inr None, example_database)
   \<and> delete_task example_database 1 2 = (Inr False, example_database)
   \<and> delete_task example_database 99 2 = (Inr False, example_database)"
proof -
  have h1: "hd (tasks example_database) \<in> set (tasks example_database)"
    by (simp add: example_defs)
  have h2: "t_id (hd (tasks example_database)) = 1"
    by (simp add: example_defs)
  have h3: "user_id (hd (tasks example_database)) = 1"
    by (simp add: example_defs)
  have h4: "(2::int) \<noteq> 1" by simp
  have h5: "distinct (map t_id (tasks example_database))"
    by (simp add: example_defs)
  have h6: "99 \<notin> t_id ` set (tasks example_database)"
    by (simp add: example_defs)
  show ?thesis
    by (rule C7_cross_owner_not_found [OF h1 h2 h3 h4 h5 h6])
qed

subsection \<open>Completion timestamp\<close>

text \<open>
  C2 on the code: after user 1 completes task 1, the task is completed with completed_at
  set; the following update, which sets only the title, leaves the status completed and
  clears completed_at.
\<close>

theorem C2_completed_at_cleared_by_title_update:
  "map (\<lambda>t. (status t, completed_at t)) (filter (\<lambda>t. t_id t = 1) (tasks rent_paid_database))
     = [(Some COMPLETED, Some 20)]
   \<and> map (\<lambda>t. (title t, status t, completed_at t))
       (filter (\<lambda>t. t_id t = 1) (tasks rent_renamed_database))
     = [(''pay the rent'', Some COMPLETED, None)]"
  by (simp add: rent_renamed_database_def rent_paid_database_def complete_task_def
      update_task_def scalar_one_or_none_def set_fields_def update_completion_timestamp_def
      field_value_def assign_def TaskUpdate_unset_def example_defs)

text \<open>
  What does hold: after an update that sets the status, completed_at is set exactly when
  the status is completed.
\<close>

lemma task_to_response_task:
  "task_to_response db now task = Inr r \<Longrightarrow> response_task r = task"
  by (auto simp: task_to_response_def and_then_def split: sum.splits)

lemma update_task_completed_at_iff:
  assumes "update_task db now tid task_update uid = (Inr (Some r), db')"
    and "tu_status task_update \<noteq> Unset"
  shows "(completed_at (response_task r) \<noteq> None) = (status (response_task r) = Some COMPLETED)"
proof -
  from assms(2) obtain v where v: "tu_status task_update = Given v"
    by (cases "tu_status task_update") simp_all
  from assms(1) obtain task where
    r: "response_task r =
          (update_completion_timestamp now task_update (set_fields task_update task))
            \<lparr> updated_at := Some now \<rparr>"
    by (auto simp: update_task_def Let_def and_then_def
        split: sum.splits option.splits if_splits dest!: task_to_response_task)
  show ?thesis
    by (simp add: r v update_completion_timestamp_def set_fields_def field_value_def assign_def)
qed

subsection \<open>Dependency cycles\<close>

text \<open>
  C1 on the code: with the edges 1 -> 2 and 2 -> 3 stored, add_task_dependency accepts
  the edge 3 -> 1, and the stored edge set has a cycle.
\<close>

theorem C1_longer_cycle_accepted:
  "edges chain_database = [(1, 2), (2, 3)]
   \<and> fst (add_task_dependency chain_database 42 3 3 1 1)
       = Inr (Some \<lparr> dep_id = 3, task_id = 3, depends_on_id = 1,
                     dependency_type = ''finish_to_start'', dep_created_at = 42 \<rparr>)
   \<and> edges (snd (add_task_dependency chain_database 42 3 3 1 1)) = [(1, 2), (2, 3), (3, 1)]
   \<and> \<not> acyclic (set (edges (snd (add_task_dependency chain_database 42 3 3 1 1))))"
proof -
  have e2: "edges chain_database = [(1, 2), (2, 3)]"
    by (simp add: chain_database_def dep_defs example_defs)
  have r: "fst (add_task_dependency chain_database 42 3 3 1 1)
       = Inr (Some \<lparr> dep_id = 3, task_id = 3, depends_on_id = 1,
                     dependency_type = ''finish_to_start'', dep_created_at = 42 \<rparr>)"
    by (simp add: chain_database_def dep_defs example_defs)
  have e3: "edges (snd (add_task_dependency chain_database 42 3 3 1 1)) = [(1, 2), (2, 3), (3, 1)]"
    by (simp add: chain_database_def dep_defs example_defs)
  let ?R = "set [((1::int), (2::int)), (2, 3), (3, 1)]"
  have "(1, 2) \<in> ?R\<^sup>+" "(2, 3) \<in> ?R\<^sup>+" "(3, 1) \<in> ?R\<^sup>+"
    by (rule r_into_trancl, simp)+
  then have "(1, 1) \<in> ?R\<^sup>+"
    by (meson trancl_trans)
  then have "\<not> acyclic (set [((1::int), (2::int)), (2, 3), (3, 1)])"
    unfolding acyclic_def by blast
  with e2 r e3 show ?thesis by simp
qed

text \<open>
  What the check does prevent: an edge whose direct reverse is stored, and, primary keys
  being distinct, an edge from a task to itself.
\<close>

lemma add_task_dependency_rejects_reverse_edge:
  assumes "(did, tid) \<in> set (edges db)"
  shows "snd (add_task_dependency db now new_id tid did uid) = db
       \<and> (\<forall>dep. fst (add_task_dependency db now new_id tid did uid) \<noteq> Inr (Some dep))"
proof -
  from assms have "filter (\<lambda>d. task_id d = did \<and> depends_on_id d = tid) (task_dependencies db) \<noteq> []"
    by (auto simp: edges_def filter_empty_conv)
  then have "would_create_circular_dependency db tid did \<noteq> Inr False"
    by (auto simp: would_create_circular_dependency_def scalar_one_or_none_def
        split: list.splits)
  then show ?thesis
    by (auto simp: add_task_dependency_def Let_def split: sum.splits bool.splits)
qed

lemma add_task_dependency_rejects_self_loop:
  assumes "distinct (map t_id (tasks db))"
  shows "add_task_dependency db now new_id tid tid uid = (Inr None, db)"
proof -
  have "length (filter (\<lambda>t. t_id t = tid) rows) \<le> 1" if "distinct (map t_id rows)" for rows
  proof -
    have "map t_id (filter (\<lambda>t. t_id t = tid) rows)
            = replicate (length (filter (\<lambda>t. t_id t = tid) rows)) tid"
      by (induction rows) simp_all
    moreover have "distinct (map t_id (filter (\<lambda>t. t_id t = tid) rows))"
      using that by (rule distinct_map_filter)
    ultimately have "distinct (replicate (length (filter (\<lambda>t. t_id t = tid) rows)) tid)"
      by simp
    then show ?thesis
      by (cases "length (filter (\<lambda>t. t_id t = tid) rows)") (auto simp: Suc_le_eq)
  qed
  moreover have "length (filter (\<lambda>t. (t_id t = tid \<or> t_id t = tid) \<and> user_id t = uid) rows)
                   \<le> length (filter (\<lambda>t. t_id t = tid) rows)" for rows
    by (induction rows) (auto intro: le_SucI)
  ultimately have "length (filter (\<lambda>t. (t_id t = tid \<or> t_id t = tid) \<and> user_id t = uid) (tasks db)) \<noteq> 2"
    using assms by (metis le_trans numeral_le_one_iff semiring_norm(69))
  then show ?thesis
    by (simp add: add_task_dependency_def Let_def)
qed

subsection \<open>Natural-language parsing\<close>

text \<open>
  C3 on the code: when the request fails, the parsing function the endpoints call raises
  "AI service unavailable" to its caller; and on a completion that is not JSON its
  fallback has a title and priority medium, and no confidence.
\<close>

theorem C3_basic_service_raises:
  "GrokService_parse_natural_language_task (Inl HTTPError) loads task_input
     = Inl AIServiceUnavailable
   \<and> GrokService_parse_natural_language_task (Inr chatty_response) (\<lambda>s. None) ''buy milk''
     = Inr (JObj [(''title'', JStr ''buy milk''), (''description'', JNull),
                  (''priority'', JStr ''medium'')])"
  by (simp add: GrokService_parse_natural_language_task_def completion_json_def
      make_request_def try_except_def and_then_def message_content_def json_loads_def
      chatty_response_def)

text \<open>
  The enhanced service's function of the same name does what C3 says: it never raises,
  and whenever the completion fails or is not JSON it returns the fallback with the first
  100 characters as title, priority medium and confidence 0.3.
\<close>

lemma try_except_Exception:
  "\<exists>v. try_except body (\<lambda>e. True) (\<lambda>e. Inr d) = Inr v"
  by (cases body) (simp_all add: try_except_def)

lemma enhanced_parse_never_raises:
  "\<exists>parsing. EnhancedGrokService_parse_natural_language_task http loads fromisoformat strptime
       task_input = Inr parsing"
  unfolding EnhancedGrokService_parse_natural_language_task_def
  by (rule try_except_Exception)

lemma enhanced_parse_fallback:
  assumes "completion_json http loads = Inl e"
  shows "EnhancedGrokService_parse_natural_language_task http loads fromisoformat strptime
           task_input = Inr (fallback_parsing task_input)"
    and "p_title (fallback_parsing task_input) = JStr (take 100 task_input)"
    and "p_priority (fallback_parsing task_input) = JStr ''medium''"
    and "p_ai_confidence (fallback_parsing task_input) = JNum (3 / 10)"
  using assms
  by (simp_all add: EnhancedGrokService_parse_natural_language_task_def try_except_def
      and_then_def fallback_parsing_def)

lemma completion_json_fails:
  "completion_json (Inl e) loads = Inl (if e = HTTPError then AIServiceUnavailable else e)"
  "loads s = None \<Longrightarrow>
   message_content response = Inr (JStr s) \<Longrightarrow>
   completion_json (Inr response) loads = Inl JSONDecodeError"
  by (simp_all add: completion_json_def make_request_def try_except_def and_then_def
      json_loads_def)

subsection \<open>Scheduling of one task\<close>

lemma optimize_task_scheduling_never_raises:
  "fst (optimize_task_scheduling db now ilike serializable http loads tid uid) = Inr ()"
  by (simp add: optimize_task_scheduling_def try_except_def Let_def split: sum.splits)

lemma no_slot_unchanged:
  assumes "\<not> has_suggested_time_slot (generate_schedule_optimization serializable http loads)"
  shows "snd (optimize_task_scheduling db now ilike serializable http loads tid uid) = db"
proof (cases "generate_schedule_optimization serializable http loads")
  case (Inl e)
  then show ?thesis
    by (simp add: optimize_task_scheduling_def Let_def split: sum.splits option.splits)
next
  case (Inr answer)
  show ?thesis
  proof (cases answer)
    case (JObj kvs)
    with Inr assms have "\<not> truthy (case map_of kvs ''suggested_time_slot'' of
                                     None \<Rightarrow> JNull | Some v \<Rightarrow> v)"
      by (simp add: has_suggested_time_slot_def split: option.splits)
    with Inr JObj show ?thesis
      by (simp add: optimize_task_scheduling_def Let_def split: sum.splits option.splits)
  qed (simp_all add: Inr optimize_task_scheduling_def Let_def split: sum.splits option.splits)
qed

lemma failed_request_no_slot:
  "\<not> has_suggested_time_slot (generate_schedule_optimization serializable (Inl e) loads)"
  by (simp add: generate_schedule_optimization_def completion_json_fails try_except_def
      has_suggested_time_slot_def)

text \<open>
  The call as the service makes it: \<open>json.dumps\<close> rejects the task dictionary, the
  exception is caught, and the database is left as it was, whatever the AI layer would
  have answered.
\<close>

lemma optimize_task_scheduling_as_called:
  "optimize_task_scheduling db now ilike False http loads tid uid = (Inr (), db)"
proof -
  have "\<not> has_suggested_time_slot (generate_schedule_optimization False http loads)"
    by (simp add: generate_schedule_optimization_def has_suggested_time_slot_def)
  from no_slot_unchanged [OF this] optimize_task_scheduling_never_raises [of db now ilike False]
  show ?thesis
    by (simp add: prod_eq_iff)
qed




subsection \<open>The background job\<close>

subsubsection \<open>Assignments touch one row and keep its keys\<close>

lemma set_time_slot_ids [simp]: "map t_id (set_time_slot i d rows) = map t_id rows"
  by (induction rows) (simp_all add: set_time_slot_def)

lemma rows_of_set_time_slot:
  "rows_of uid (set_time_slot i d rows) = set_time_slot i d (rows_of uid rows)"
  by (induction rows) (simp_all add: set_time_slot_def rows_of_def)

lemma set_time_slot_absent:
  "i \<notin> t_id ` set rows \<Longrightarrow> set_time_slot i d rows = rows"
  by (induction rows) (auto simp: set_time_slot_def)

lemma suggested_assignment_task:
  "suggested_assignment fi user_tasks suggestion = Inr (Some (task, d)) \<Longrightarrow> task \<in> set user_tasks"
  by (auto simp: suggested_assignment_def and_then_def find_Some_iff
      split: sum.splits if_splits option.splits json.splits)

subsubsection \<open>The loop over the suggestions\<close>

lemma apply_suggestions_ids:
  "map t_id (snd (apply_suggestions fi user_tasks ss rows)) = map t_id rows"
  by (induction ss arbitrary: rows) (simp_all split: sum.splits option.splits prod.splits)

lemma apply_suggestions_outcome:
  "fst (apply_suggestions fi user_tasks ss rows) = fst (apply_suggestions fi user_tasks ss rows')"
  by (induction ss arbitrary: rows rows') (simp_all split: sum.splits option.splits prod.splits)

lemma apply_suggestions_rows_of:
  "rows_of uid (snd (apply_suggestions fi user_tasks ss rows))
     = snd (apply_suggestions fi user_tasks ss (rows_of uid rows))"
  by (induction ss arbitrary: rows)
     (simp_all add: rows_of_set_time_slot split: sum.splits option.splits prod.splits)

lemma apply_suggestions_absent:
  assumes "t_id ` set user_tasks \<inter> t_id ` set rows = {}"
  shows "snd (apply_suggestions fi user_tasks ss rows) = rows"
proof (induction ss)
  case Nil
  show ?case by simp
next
  case (Cons s ss)
  have "set_time_slot (t_id task) d rows = rows"
    if "suggested_assignment fi user_tasks s = Inr (Some (task, d))" for task d
    using suggested_assignment_task [OF that] assms
    by (intro set_time_slot_absent) blast
  with Cons show ?case
    by (simp split: sum.splits option.splits prod.splits)
qed

subsubsection \<open>One user\<close>

lemma user_pending_tasks_rows_of:
  "user_pending_tasks user (rows_of (u_id user) rows) = user_pending_tasks user rows"
proof -
  have "filter (\<lambda>t. user_id t = u_id user \<and> P t) (filter (\<lambda>t. user_id t = u_id user) rows)
        = filter (\<lambda>t. user_id t = u_id user \<and> P t) rows" for P
    by (induction rows) simp_all
  then show ?thesis
    by (simp add: user_pending_tasks_def rows_of_def)
qed

lemma user_pending_tasks_subset:
  "set (user_pending_tasks user rows) \<subseteq> set (rows_of (u_id user) rows)"
  unfolding user_pending_tasks_def rows_of_def
  by (rule subset_trans [OF set_take_subset]) auto

lemma optimize_user_pending:
  "pending (snd (optimize_user ai loads fi user s)) = pending s
   \<or> (\<exists>ss. pending (snd (optimize_user ai loads fi user s))
              = snd (apply_suggestions fi (user_pending_tasks user (pending s)) ss (pending s)))"
proof (cases "and_then (generate_schedule_optimization True (ai (u_id user)) loads)
                (\<lambda>optimization.
                 and_then (dict_get optimization ''optimized_schedule'' (JArr [])) iterate)")
  case (Inl e)
  then show ?thesis
    by (simp add: optimize_user_def Let_def)
next
  case (Inr ss)
  obtain r p where a: "apply_suggestions fi (user_pending_tasks user (pending s)) ss (pending s)
                         = (r, p)"
    by (cases "apply_suggestions fi (user_pending_tasks user (pending s)) ss (pending s)")
  have "pending (snd (optimize_user ai loads fi user s)) = pending s
        \<or> pending (snd (optimize_user ai loads fi user s)) = p"
    using Inr a by (cases r) (simp_all add: optimize_user_def Let_def commit_def)
  with a show ?thesis
    by (metis snd_conv)
qed

lemma optimize_user_ids:
  "map t_id (pending (snd (optimize_user ai loads fi user s))) = map t_id (pending s)"
  using optimize_user_pending [of ai loads fi user s]
  by (auto simp: apply_suggestions_ids)

lemma optimize_user_committed:
  "committed (snd (optimize_user ai loads fi user s))
     = (if fst (optimize_user ai loads fi user s) = Inr True
        then pending (snd (optimize_user ai loads fi user s)) else committed s)"
  by (auto simp: optimize_user_def commit_def Let_def split: sum.splits prod.splits)

lemma other_rows_disjoint:
  assumes "distinct (map t_id rows)" "uid \<noteq> u_id user"
  shows "t_id ` set (user_pending_tasks user rows) \<inter> t_id ` set (rows_of uid rows) = {}"
proof -
  have "t = t'" if "t \<in> set rows" "t' \<in> set rows" "t_id t = t_id t'" for t t'
    using assms(1) that by (metis distinct_map inj_onD)
  moreover have "set (user_pending_tasks user rows) \<subseteq> {t \<in> set rows. user_id t = u_id user}"
    using user_pending_tasks_subset [of user rows] by (auto simp: rows_of_def)
  ultimately show ?thesis
    using assms(2) by (auto simp: rows_of_def)
qed

lemma optimize_user_other_rows:
  assumes "distinct (map t_id (pending s))" "uid \<noteq> u_id user"
  shows "rows_of uid (pending (snd (optimize_user ai loads fi user s))) = rows_of uid (pending s)"
proof -
  have "rows_of uid (snd (apply_suggestions fi (user_pending_tasks user (pending s)) ss (pending s)))
          = rows_of uid (pending s)" for ss
    by (simp add: apply_suggestions_rows_of
        apply_suggestions_absent [OF other_rows_disjoint [OF assms]])
  with optimize_user_pending [of ai loads fi user s] show ?thesis
    by auto
qed

lemma optimize_user_own_rows:
  assumes "rows_of (u_id user) (pending s) = rows_of (u_id user) (pending s')"
  shows "fst (optimize_user ai loads fi user s) = fst (optimize_user ai loads fi user s')
       \<and> rows_of (u_id user) (pending (snd (optimize_user ai loads fi user s)))
         = rows_of (u_id user) (pending (snd (optimize_user ai loads fi user s')))"
proof -
  let ?ts = "user_pending_tasks user (pending s)"
  have ts: "user_pending_tasks user (pending s') = ?ts"
    using assms user_pending_tasks_rows_of [of user "pending s"]
          user_pending_tasks_rows_of [of user "pending s'"] by simp
  have out: "fst (apply_suggestions fi ?ts ss (pending s))
               = fst (apply_suggestions fi ?ts ss (pending s'))" for ss
    by (rule apply_suggestions_outcome)
  have rows: "rows_of (u_id user) (snd (apply_suggestions fi ?ts ss (pending s)))
               = rows_of (u_id user) (snd (apply_suggestions fi ?ts ss (pending s')))" for ss
    by (simp add: apply_suggestions_rows_of assms)
  show ?thesis
  proof (cases "and_then (generate_schedule_optimization True (ai (u_id user)) loads)
                  (\<lambda>optimization.
                   and_then (dict_get optimization ''optimized_schedule'' (JArr [])) iterate)")
    case (Inl e)
    then show ?thesis
      by (simp add: optimize_user_def ts Let_def assms)
  next
    case (Inr ss)
    obtain r1 p1 where a1: "apply_suggestions fi ?ts ss (pending s) = (r1, p1)"
      by (cases "apply_suggestions fi ?ts ss (pending s)")
    obtain r2 p2 where a2: "apply_suggestions fi ?ts ss (pending s') = (r2, p2)"
      by (cases "apply_suggestions fi ?ts ss (pending s')")
    from out [of ss] rows [of ss] a1 a2
    have "r1 = r2" "rows_of (u_id user) p1 = rows_of (u_id user) p2"
      by simp_all
    with Inr a1 a2 show ?thesis
      by (cases r2) (simp_all add: optimize_user_def ts Let_def assms commit_def)
  qed
qed

subsubsection \<open>The loop over the users\<close>

lemma optimize_users_count:
  "n \<le> snd (optimize_users ai loads fi us s n)
   \<and> snd (optimize_users ai loads fi us s n) \<le> n + length us"
proof (induction us arbitrary: s n)
  case Nil
  show ?case by simp
next
  case (Cons v us)
  obtain r s' where step: "optimize_user ai loads fi v s = (r, s')"
    by (cases "optimize_user ai loads fi v s")
  show ?case
  proof (cases r)
    case (Inl e)
    with step Cons [where s = s' and n = n] show ?thesis by simp
  next
    case (Inr counted)
    with step Cons [where s = s' and n = "if counted then n + 1 else n"] show ?thesis
      by (simp split: if_splits)
  qed
qed

lemma optimize_users_after:
  assumes "uid \<notin> u_id ` set us"
    and "distinct (map t_id (pending s))"
    and "rows_of uid (pending s) = X"
    and "rows_of uid (committed s) = X"
  shows "rows_of uid (committed (fst (optimize_users ai loads fi us s n))) = X"
  using assms
proof (induction us arbitrary: s n)
  case Nil
  then show ?case by simp
next
  case (Cons v us)
  obtain r s' where step: "optimize_user ai loads fi v s = (r, s')"
    by (cases "optimize_user ai loads fi v s")
  from Cons.prems have ne: "uid \<noteq> u_id v" and rest: "uid \<notin> u_id ` set us"
    by auto
  have p: "rows_of uid (pending s') = X"
    using optimize_user_other_rows [OF Cons.prems(2) ne, of ai loads fi] step Cons.prems(3)
    by simp
  have c: "rows_of uid (committed s') = X"
    using optimize_user_committed [of ai loads fi v s] step p Cons.prems(4)
    by (simp split: if_splits)
  have d: "distinct (map t_id (pending s'))"
    using optimize_user_ids [of ai loads fi v s] step Cons.prems(2) by simp
  have "rows_of uid (committed (fst (optimize_users ai loads fi us s' m))) = X" for m
    by (rule Cons.IH [OF rest d p c])
  with step show ?case
    by (cases r) simp_all
qed

lemma optimize_users_before:
  assumes "u \<in> set us"
    and "distinct (map u_id us)"
    and "distinct (map t_id (pending s))"
    and "rows_of (u_id u) (pending s) = rows_of (u_id u) rows"
    and "optimize_user ai loads fi u \<lparr> pending = rows, committed = rows \<rparr>
           = (Inr True, \<lparr> pending = rows_u, committed = rows_u \<rparr>)"
  shows "rows_of (u_id u) (committed (fst (optimize_users ai loads fi us s n)))
           = rows_of (u_id u) rows_u
       \<and> n < snd (optimize_users ai loads fi us s n)"
  using assms(1-4)
proof (induction us arbitrary: s n)
  case Nil
  then show ?case by simp
next
  case (Cons v us)
  obtain r s' where step: "optimize_user ai loads fi v s = (r, s')"
    by (cases "optimize_user ai loads fi v s")
  have d: "distinct (map t_id (pending s'))"
    using optimize_user_ids [of ai loads fi v s] step Cons.prems(3) by simp
  show ?case
  proof (cases "u_id v = u_id u")
    case True
    with Cons.prems(1,2) have vu: "v = u"
      by (metis distinct.simps(2) image_eqI list.simps(9) set_ConsD set_map)
    from optimize_user_own_rows [of u s "\<lparr> pending = rows, committed = rows \<rparr>" ai loads fi]
         Cons.prems(4) assms(5) step vu
    have r: "r = Inr True" and p: "rows_of (u_id u) (pending s') = rows_of (u_id u) rows_u"
      by simp_all
    have c: "rows_of (u_id u) (committed s') = rows_of (u_id u) rows_u"
      using optimize_user_committed [of ai loads fi v s] step r p by simp
    from Cons.prems(2) vu have rest: "u_id u \<notin> u_id ` set us"
      by simp
    have "rows_of (u_id u) (committed (fst (optimize_users ai loads fi us s' (n + 1))))
            = rows_of (u_id u) rows_u"
      by (rule optimize_users_after [OF rest d p c])
    moreover have "n + 1 \<le> snd (optimize_users ai loads fi us s' (n + 1))"
      using optimize_users_count [of "n + 1" ai loads fi us s'] by simp
    ultimately show ?thesis
      using step r by simp
  next
    case False
    with Cons.prems(1) have mem: "u \<in> set us" by auto
    from Cons.prems(2) have dist: "distinct (map u_id us)" by simp
    have p: "rows_of (u_id u) (pending s') = rows_of (u_id u) rows"
      using optimize_user_other_rows [OF Cons.prems(3), of "u_id u" v ai loads fi] False step
            Cons.prems(4)
      by simp
    have ih: "rows_of (u_id u) (committed (fst (optimize_users ai loads fi us s' m)))
                = rows_of (u_id u) rows_u
              \<and> m < snd (optimize_users ai loads fi us s' m)" for m
      by (rule Cons.IH [OF mem dist d p])
    show ?thesis
    proof (cases r)
      case (Inl e)
      with step ih [of n] show ?thesis by simp
    next
      case (Inr counted)
      with step ih [of "if counted then n + 1 else n"] show ?thesis
        by (simp split: if_splits)
    qed
  qed
qed

text \<open>
  The loop over the users, run on any list of users: whatever happens to the other users
  (a malformed answer, an exception in the middle of their suggestions), a user whose
  own processing succeeds is counted and ends with exactly the rows that processing that
  user alone would have committed, and the count never exceeds the number of users.
\<close>

lemma loop_processes_users_independently:
  assumes "distinct (map u_id users)"
    and "distinct (map t_id (tasks db))"
    and "u \<in> set users"
    and "optimize_user ai loads fromisoformat u \<lparr> pending = tasks db, committed = tasks db \<rparr>
           = (Inr True, \<lparr> pending = rows_u, committed = rows_u \<rparr>)"
  shows "rows_of (u_id u)
           (committed (fst (optimize_users ai loads fromisoformat users
                              \<lparr> pending = tasks db, committed = tasks db \<rparr> 0)))
           = rows_of (u_id u) rows_u
       \<and> 1 \<le> snd (optimize_users ai loads fromisoformat users
                     \<lparr> pending = tasks db, committed = tasks db \<rparr> 0)
       \<and> snd (optimize_users ai loads fromisoformat users
                \<lparr> pending = tasks db, committed = tasks db \<rparr> 0) \<le> length users"
proof -
  let ?s0 = "\<lparr> pending = tasks db, committed = tasks db \<rparr>"
  let ?run = "optimize_users ai loads fromisoformat users ?s0 0"
  have b: "rows_of (u_id u) (committed (fst ?run)) = rows_of (u_id u) rows_u \<and> 0 < snd ?run"
    by (rule optimize_users_before [OF assms(3) assms(1) _ _ assms(4)]) (simp_all add: assms(2))
  have c: "snd ?run \<le> length users"
    using optimize_users_count [of 0 ai loads fromisoformat users ?s0]
    by simp
  from b c show ?thesis
    by simp
qed

lemmas job_defs =
  job_database_def example_users_def completion_def example_ai_def schedule_for_def
  example_loads_def example_fromisoformat_def
  optimize_user_def user_pending_tasks_def suggested_assignment_def set_time_slot_def
  commit_def generate_schedule_optimization_def completion_json_def make_request_def
  message_content_def json_loads_def and_then_def try_except_def rows_of_def

text \<open>
  The loop on the three active users of the example. The failed request of user 2 is
  absorbed by the service's fallback answer, so user 2 is counted too, although nothing
  was scheduled for that user; an answer that is not a dictionary raises inside the
  per-user block and is not counted.
\<close>

lemma loop_example_run:
  "(case optimize_users example_ai example_loads example_fromisoformat (take 3 example_users)
           \<lparr> pending = tasks job_database, committed = tasks job_database \<rparr> 0 of
      (s, n) \<Rightarrow> (n, map (\<lambda>t. (t_id t, user_id t, ai_suggested_time_slot t)) (committed s)))
     = (3, [(1, 1, None), (2, 1, Some 1714554000000000), (3, 1, None), (4, 2, None),
            (5, 3, Some 1714554000000000)])"
  by (simp add: job_defs example_defs)

lemma loop_example_run_malformed:
  "(case optimize_users example_ai_malformed example_loads example_fromisoformat
           (take 3 example_users)
           \<lparr> pending = tasks job_database, committed = tasks job_database \<rparr> 0 of
      (s, n) \<Rightarrow> (n, map (\<lambda>t. (t_id t, user_id t, ai_suggested_time_slot t)) (committed s)))
     = (2, [(1, 1, None), (2, 1, Some 1714554000000000), (3, 1, None), (4, 2, None),
            (5, 3, Some 1714554000000000)])"
  by (simp add: example_ai_malformed_def job_defs example_defs)

text \<open>
  C9 on the code. The job raises AttributeError while it builds the users query, before
  any user is processed: on every table of users, for every answer of the AI layer and
  on every database, the exception leaves the job and the database is as it was, so no
  user receives a suggested time slot and no count is reported.
\<close>

theorem C9_job_raises_before_the_loop:
  "optimize_user_schedules ai loads fromisoformat users_table db = (Inl AttributeError, db)
   \<and> optimize_user_schedules example_ai example_loads example_fromisoformat example_users
         job_database = (Inl AttributeError, job_database)
   \<and> map (\<lambda>t. (t_id t, user_id t, ai_suggested_time_slot t)) (tasks job_database)
       = [(1, 1, None), (2, 1, None), (3, 1, None), (4, 2, None), (5, 3, None)]"
proof -
  have r: "optimize_user_schedules ai loads fromisoformat users_table db
             = (Inl AttributeError, db)"
    for ai loads fromisoformat users_table db
    by (simp add: optimize_user_schedules_def users_query_def ai_preferences_type_def
        and_then_def)
  have "map (\<lambda>t. (t_id t, user_id t, ai_suggested_time_slot t)) (tasks job_database)
          = [(1, 1, None), (2, 1, None), (3, 1, None), (4, 2, None), (5, 3, None)]"
    by (simp add: job_database_def example_defs)
  with r show ?thesis
    by simp
qed

end
